theory Spec2Isabelle
  imports Main "HOL-Library.Sublist"
begin

section \<open>Common conventions\<close>

text \<open>
  Python strings are modelled as \<^typ>\<open>string\<close> (lists of 8-bit characters); the
  Korean message literals of the source are kept as named constants holding their
  UTF-8 bytes. A raised Python exception is a value \<open>Exn msg\<close> carrying the text of
  \<open>str(e)\<close>; a function that may raise returns \<open>exn + 'a\<close>.
\<close>


datatype exn = Exn string

section \<open>Duration formatter (\<open>Youtube_search.py\<close>, \<open>format_duration\<close>)\<close>

text \<open>
  \<open>isodate.parse_duration\<close> is a library call; it is a parameter of the model and
  returns the total number of seconds of the parsed duration (catalog durations are
  whole seconds), or raises. \<open>str_nat\<close> is Python's decimal rendering of a
  non-negative \<open>int\<close>, \<open>fmt02\<close> the format specification \<open>:02\<close>.
\<close>

definition digit_char :: "nat \<Rightarrow> char" where
  "digit_char d = char_of (48 + d)"

function str_nat :: "nat \<Rightarrow> string" where
  "str_nat n = (if n < 10 then [digit_char n] else str_nat (n div 10) @ [digit_char (n mod 10)])"
  by pat_completeness auto
termination
  by (relation "measure id") auto

declare str_nat.simps [simp del]

definition fmt02 :: "nat \<Rightarrow> string" where
  "fmt02 n = (let s = str_nat n in replicate (2 - length s) CHR ''0'' @ s)"

definition divmod :: "nat \<Rightarrow> nat \<Rightarrow> nat \<times> nat" where
  "divmod a b = (a div b, a mod b)"

definition format_duration :: "(string \<Rightarrow> exn + nat) \<Rightarrow> string \<Rightarrow> exn + string" where
  "format_duration parse_duration duration =
     (case parse_duration duration of
        Inl e \<Rightarrow> Inl e
      | Inr total_seconds \<Rightarrow>
          (let (hours, remainder) = divmod total_seconds 3600;
               (minutes, seconds) = divmod remainder 60
           in Inr (fmt02 hours @ '':'' @ fmt02 minutes @ '':'' @ fmt02 seconds)))"

definition is_digit :: "char \<Rightarrow> bool" where
  "is_digit c = (48 \<le> (of_char c :: nat) \<and> (of_char c :: nat) \<le> 57)"

definition dec_val :: "string \<Rightarrow> nat" where
  "dec_val s = foldl (\<lambda>acc c. acc * 10 + (of_char c - 48)) 0 s"


section \<open>Identifier extractor (\<open>excel_summarizer.py\<close>, \<open>extract_video_id\<close>)\<close>

text \<open>
  A spreadsheet cell read by pandas is a string, a number, a NaN (empty cell) or
  \<open>None\<close>. \<open>truthy\<close> is Python's truth value, \<open>is_str\<close> is
  \<open>isinstance(url, str)\<close>.
\<close>

datatype pyval = PNone | PStr string | PInt int | PNaN

fun truthy :: "pyval \<Rightarrow> bool" where
  "truthy PNone = False"
| "truthy (PStr s) = (s \<noteq> [])"
| "truthy (PInt i) = (i \<noteq> 0)"
| "truthy PNaN = True"

fun is_str :: "pyval \<Rightarrow> bool" where
  "is_str (PStr s) = True"
| "is_str v = False"

text \<open>\<open>sub in s\<close> on Python strings: \<open>sub\<close> occurs as a contiguous substring.\<close>

fun contains :: "string \<Rightarrow> string \<Rightarrow> bool" where
  "contains sub [] = (sub = [])"
| "contains sub (c # cs) = (prefix sub (c # cs) \<or> contains sub cs)"

text \<open>\<open>s.split(sep)\<close> for a one-character separator; the result is never empty.\<close>

fun split_on :: "char \<Rightarrow> string \<Rightarrow> string list" where
  "split_on sep [] = [[]]"
| "split_on sep (c # cs) =
     (if c = sep then [] # split_on sep cs
      else (case split_on sep cs of
              [] \<Rightarrow> [[c]]
            | w # ws \<Rightarrow> (c # w) # ws))"

text \<open>
  The character class \<open>[a-zA-Z0-9_-]\<close> and
  \<open>re.search(r'shorts/([a-zA-Z0-9_-]+)', url)\<close>: the leftmost position where
  \<open>shorts/\<close> is followed by at least one character of the class; group 1 is the
  longest run of such characters there.
\<close>

definition is_id_char :: "char \<Rightarrow> bool" where
  "is_id_char c =
     (let n = (of_char c :: nat)
      in (97 \<le> n \<and> n \<le> 122) \<or> (65 \<le> n \<and> n \<le> 90) \<or> (48 \<le> n \<and> n \<le> 57)
         \<or> c = CHR ''_'' \<or> c = CHR ''-'')"

fun shorts_search :: "string \<Rightarrow> string option" where
  "shorts_search [] = None"
| "shorts_search (c # cs) =
     (if prefix ''shorts/'' (c # cs) \<and> takeWhile is_id_char (drop 7 (c # cs)) \<noteq> []
      then Some (takeWhile is_id_char (drop 7 (c # cs)))
      else shorts_search cs)"

text \<open>
  \<open>urlparse(url).query\<close> of \<open>urllib.parse\<close>: leading C0 control characters and
  spaces are stripped, tab, CR and LF are removed, a leading scheme and the network
  location after \<open>//\<close> are split off, the fragment after the first \<open>#\<close> is dropped
  and the query is what follows the first \<open>?\<close>. A network location with
  unbalanced square brackets raises \<open>ValueError\<close>; the further validation of a
  bracketed or non-ASCII network location is the parameter \<open>netloc_check\<close>.
\<close>

definition is_scheme_char :: "char \<Rightarrow> bool" where
  "is_scheme_char c =
     (let n = (of_char c :: nat)
      in (97 \<le> n \<and> n \<le> 122) \<or> (65 \<le> n \<and> n \<le> 90) \<or> (48 \<le> n \<and> n \<le> 57)
         \<or> c = CHR ''+'' \<or> c = CHR ''-'' \<or> c = CHR ''.'')"

definition is_ascii_alpha :: "char \<Rightarrow> bool" where
  "is_ascii_alpha c =
     (let n = (of_char c :: nat) in (97 \<le> n \<and> n \<le> 122) \<or> (65 \<le> n \<and> n \<le> 90))"

definition strip_scheme :: "string \<Rightarrow> string" where
  "strip_scheme url =
     (let pre = takeWhile (\<lambda>c. c \<noteq> CHR '':'') url
      in if CHR '':'' \<in> set url \<and> pre \<noteq> [] \<and> is_ascii_alpha (hd pre) \<and> list_all is_scheme_char pre
         then drop (length pre + 1) url
         else url)"

definition splitnetloc :: "string \<Rightarrow> string \<times> string" where
  "splitnetloc url =
     (let rest = drop 2 url;
          netloc = takeWhile (\<lambda>c. c \<noteq> CHR ''/'' \<and> c \<noteq> CHR ''?'' \<and> c \<noteq> CHR ''#'') rest
      in (netloc, drop (length netloc) rest))"

definition urlparse_query :: "(string \<Rightarrow> bool) \<Rightarrow> string \<Rightarrow> exn + string" where
  "urlparse_query netloc_check url0 =
     (let url1 = dropWhile (\<lambda>c. (of_char c :: nat) \<le> 32) url0;
          url2 = filter (\<lambda>c. (of_char c :: nat) \<noteq> 9 \<and> (of_char c :: nat) \<noteq> 10
                              \<and> (of_char c :: nat) \<noteq> 13) url1;
          url3 = strip_scheme url2;
          (netloc, url4) = (if take 2 url3 = ''//'' then splitnetloc url3 else ([], url3))
      in if (CHR ''['' \<in> set netloc) \<noteq> (CHR '']'' \<in> set netloc)
         then Inl (Exn ''Invalid IPv6 URL'')
         else if (CHR ''['' \<in> set netloc \<or> \<not> list_all (\<lambda>c. (of_char c :: nat) < 128) netloc)
                 \<and> \<not> netloc_check netloc
         then Inl (Exn ''invalid netloc'')
         else (let url5 = takeWhile (\<lambda>c. c \<noteq> CHR ''#'') url4
               in Inr (if CHR ''?'' \<in> set url5
                       then drop 1 (dropWhile (\<lambda>c. c \<noteq> CHR ''?'') url5)
                       else [])))"

text \<open>
  \<open>parse_qs(query)\<close> of \<open>urllib.parse\<close>: the query is split at \<open>&\<close>; a field is
  split at its first \<open>=\<close>; fields with an empty value are dropped; in name and
  value \<open>+\<close> becomes a space and percent escapes are decoded. Decoding leaves a
  string without \<open>%\<close> unchanged; the decoder proper is the parameter \<open>pct\<close>.
  The result maps each name to the list of its values, in order.
\<close>

definition unquote :: "(string \<Rightarrow> string) \<Rightarrow> string \<Rightarrow> string" where
  "unquote pct s = (if CHR ''%'' \<in> set s then pct s else s)"

definition unquote_plus :: "(string \<Rightarrow> string) \<Rightarrow> string \<Rightarrow> string" where
  "unquote_plus pct s = unquote pct (map (\<lambda>c. if c = CHR ''+'' then CHR '' '' else c) s)"

definition parse_qsl :: "(string \<Rightarrow> string) \<Rightarrow> string \<Rightarrow> (string \<times> string) list" where
  "parse_qsl pct qs =
     concat (map (\<lambda>name_value.
        if name_value = [] then []
        else (let name = takeWhile (\<lambda>c. c \<noteq> CHR ''='') name_value;
                  val = drop (length name + 1) name_value
              in if val \<noteq> [] then [(unquote_plus pct name, unquote_plus pct val)] else []))
       (split_on CHR ''&'' qs))"

definition parse_qs :: "(string \<Rightarrow> string) \<Rightarrow> string \<Rightarrow> (string \<rightharpoonup> string list)" where
  "parse_qs pct qs =
     foldl (\<lambda>d (name, val). d(name \<mapsto> (case d name of None \<Rightarrow> [val] | Some vs \<Rightarrow> vs @ [val])))
       Map.empty (parse_qsl pct qs)"


text \<open>
  The body of \<open>extract_video_id\<close> inside its \<open>try\<close>; \<open>Inl\<close> is an exception
  reaching the handler. A video id is \<open>Some\<close> string, Python's \<open>None\<close> is
  \<open>None\<close>.
\<close>

definition extract_video_id_body ::
  "(string \<Rightarrow> bool) \<Rightarrow> (string \<Rightarrow> string) \<Rightarrow> pyval \<Rightarrow> exn + string option" where
  "extract_video_id_body netloc_check pct url =
     (if \<not> truthy url \<or> \<not> is_str url then Inr None
      else (case url of
        PStr s \<Rightarrow>
          (case (if contains ''shorts'' s then shorts_search s else None) of
             Some shorts_match \<Rightarrow> Inr (Some shorts_match)
           | None \<Rightarrow>
               if contains ''youtu.be'' s
               then Inr (Some (hd (split_on CHR ''?'' (last (split_on CHR ''/'' s)))))
               else if contains ''youtube.com'' s
               then (case urlparse_query netloc_check s of
                       Inl e \<Rightarrow> Inl e
                     | Inr query \<Rightarrow>
                         if query \<noteq> []
                         then (case parse_qs pct query ''v'' of
                                 None \<Rightarrow> Inr None
                               | Some [] \<Rightarrow> Inl (Exn ''list index out of range'')
                               | Some (v # vs) \<Rightarrow> Inr (Some v))
                         else Inr None)
               else Inr None)
      | _ \<Rightarrow> Inr None))"

text \<open>The \<open>except Exception\<close> handler prints the error and returns \<open>None\<close>.\<close>

definition extract_video_id ::
  "(string \<Rightarrow> bool) \<Rightarrow> (string \<Rightarrow> string) \<Rightarrow> pyval \<Rightarrow> string option" where
  "extract_video_id netloc_check pct url =
     (case extract_video_id_body netloc_check pct url of
        Inl e \<Rightarrow> None
      | Inr r \<Rightarrow> r)"


text \<open>For concrete runs: a network-location check that accepts everything.\<close>

definition accept_netloc :: "string \<Rightarrow> bool" where
  "accept_netloc netloc = True"

section \<open>Title lookup, transcript resolver, summarizer and batch (\<open>excel_summarizer.py\<close>)\<close>

text \<open>
  The message literals of the source, as UTF-8 bytes: the title placeholder, the
  title failure prefix, the no-captions message, the captions-disabled message, the
  generic error prefix, and the title and summary of a row with an invalid URL.
\<close>

definition msg_title_unavailable :: string where
  "msg_title_unavailable =
    [CHR 0xEC, CHR 0xA0, CHR 0x9C, CHR 0xEB, CHR 0xAA, CHR 0xA9, CHR 0xEC, CHR 0x9D, CHR 0x84,
     CHR 0x20, CHR 0xEA, CHR 0xB0, CHR 0x80, CHR 0xEC, CHR 0xA0, CHR 0xB8, CHR 0xEC, CHR 0x98,
     CHR 0xAC, CHR 0x20, CHR 0xEC, CHR 0x88, CHR 0x98, CHR 0x20, CHR 0xEC, CHR 0x97, CHR 0x86,
     CHR 0xEC, CHR 0x8A, CHR 0xB5, CHR 0xEB, CHR 0x8B, CHR 0x88, CHR 0xEB, CHR 0x8B, CHR 0xA4]"

definition msg_title_failed :: string where
  "msg_title_failed =
    [CHR 0xEC, CHR 0xA0, CHR 0x9C, CHR 0xEB, CHR 0xAA, CHR 0xA9, CHR 0x20, CHR 0xEA, CHR 0xB0,
     CHR 0x80, CHR 0xEC, CHR 0xA0, CHR 0xB8, CHR 0xEC, CHR 0x98, CHR 0xA4, CHR 0xEA, CHR 0xB8,
     CHR 0xB0, CHR 0x20, CHR 0xEC, CHR 0x8B, CHR 0xA4, CHR 0xED, CHR 0x8C, CHR 0xA8, CHR 0x3A,
     CHR 0x20]"

definition msg_no_transcript :: string where
  "msg_no_transcript =
    [CHR 0xEC, CHR 0x9D, CHR 0xB4, CHR 0x20, CHR 0xEB, CHR 0xB9, CHR 0x84, CHR 0xEB, CHR 0x94,
     CHR 0x94, CHR 0xEC, CHR 0x98, CHR 0xA4, CHR 0xEC, CHR 0x97, CHR 0x90, CHR 0x20, CHR 0xEB,
     CHR 0x8C, CHR 0x80, CHR 0xED, CHR 0x95, CHR 0x9C, CHR 0x20, CHR 0xEC, CHR 0x9E, CHR 0x90,
     CHR 0xEB, CHR 0xA7, CHR 0x89, CHR 0xEC, CHR 0x9D, CHR 0x84, CHR 0x20, CHR 0xEC, CHR 0xB0,
     CHR 0xBE, CHR 0xEC, CHR 0x9D, CHR 0x84, CHR 0x20, CHR 0xEC, CHR 0x88, CHR 0x98, CHR 0x20,
     CHR 0xEC, CHR 0x97, CHR 0x86, CHR 0xEC, CHR 0x8A, CHR 0xB5, CHR 0xEB, CHR 0x8B, CHR 0x88,
     CHR 0xEB, CHR 0x8B, CHR 0xA4, CHR 0x2E]"

definition msg_transcripts_disabled :: string where
  "msg_transcripts_disabled =
    [CHR 0xEC, CHR 0x8A, CHR 0xA4, CHR 0xED, CHR 0x81, CHR 0xAC, CHR 0xEB, CHR 0xA6, CHR 0xBD,
     CHR 0xED, CHR 0x8A, CHR 0xB8, CHR 0xEA, CHR 0xB0, CHR 0x80, CHR 0x20, CHR 0xEB, CHR 0xB9,
     CHR 0x84, CHR 0xED, CHR 0x99, CHR 0x9C, CHR 0xEC, CHR 0x84, CHR 0xB1, CHR 0xED, CHR 0x99,
     CHR 0x94, CHR 0xEB, CHR 0x90, CHR 0x98, CHR 0xEC, CHR 0x96, CHR 0xB4, CHR 0x20, CHR 0xEC,
     CHR 0x9E, CHR 0x88, CHR 0xEC, CHR 0x8A, CHR 0xB5, CHR 0xEB, CHR 0x8B, CHR 0x88, CHR 0xEB,
     CHR 0x8B, CHR 0xA4, CHR 0x2E]"

definition msg_error_occurred :: string where
  "msg_error_occurred =
    [CHR 0xEC, CHR 0x98, CHR 0xA4, CHR 0xEB, CHR 0xA5, CHR 0x98, CHR 0xEA, CHR 0xB0, CHR 0x80,
     CHR 0x20, CHR 0xEB, CHR 0xB0, CHR 0x9C, CHR 0xEC, CHR 0x83, CHR 0x9D, CHR 0xED, CHR 0x96,
     CHR 0x88, CHR 0xEC, CHR 0x8A, CHR 0xB5, CHR 0xEB, CHR 0x8B, CHR 0x88, CHR 0xEB, CHR 0x8B,
     CHR 0xA4, CHR 0x3A, CHR 0x20]"

definition msg_invalid_url_title :: string where
  "msg_invalid_url_title =
    [CHR 0xEC, CHR 0x9C, CHR 0xA0, CHR 0xED, CHR 0x9A, CHR 0xA8, CHR 0xED, CHR 0x95, CHR 0x98,
     CHR 0xEC, CHR 0xA7, CHR 0x80, CHR 0x20, CHR 0xEC, CHR 0x95, CHR 0x8A, CHR 0xEC, CHR 0x9D,
     CHR 0x80, CHR 0x20, CHR 0x55, CHR 0x52, CHR 0x4C]"

definition msg_invalid_url :: string where
  "msg_invalid_url =
    [CHR 0xEC, CHR 0x9C, CHR 0xA0, CHR 0xED, CHR 0x9A, CHR 0xA8, CHR 0xED, CHR 0x95, CHR 0x98,
     CHR 0xEC, CHR 0xA7, CHR 0x80, CHR 0x20, CHR 0xEC, CHR 0x95, CHR 0x8A, CHR 0xEC, CHR 0x9D,
     CHR 0x80, CHR 0x20, CHR 0x59, CHR 0x6F, CHR 0x75, CHR 0x54, CHR 0x75, CHR 0x62, CHR 0x65,
     CHR 0x20, CHR 0x55, CHR 0x52, CHR 0x4C, CHR 0xEC, CHR 0x9E, CHR 0x85, CHR 0xEB, CHR 0x8B,
     CHR 0x88, CHR 0xEB, CHR 0x8B, CHR 0xA4, CHR 0x2E]"

text \<open>
  \<open>get_video_title_async\<close>. One attempt of its \<open>try\<close> body either raises
  (missing API key, transport error, malformed body; \<open>TitleRaised\<close> with
  \<open>str(e)\<close>) or obtains a response with a status code and the titles of the items
  of its body (\<open>TitleResponse\<close>). The catalog is an oracle from the video id and the
  attempt number to the outcome. The run records the durations passed to
  \<open>asyncio.sleep\<close> and the number of requests made.
\<close>

definition max_retries :: nat where
  "max_retries = 3"

definition retry_delay :: nat where
  "retry_delay = 1"

datatype title_attempt = TitleRaised string | TitleResponse nat "string list"

record title_run =
  title_result :: pyval
  title_sleeps :: "nat list"
  title_requests :: nat

fun title_loop :: "(nat \<Rightarrow> title_attempt) \<Rightarrow> nat list \<Rightarrow> nat list \<Rightarrow> nat \<Rightarrow> title_run" where
  "title_loop api [] sleeps n =
     \<lparr>title_result = PNone, title_sleeps = sleeps, title_requests = n\<rparr>"
| "title_loop api (attempt # rest) sleeps n =
     (case api attempt of
        TitleResponse status titles \<Rightarrow>
          (if status = 200 \<and> titles \<noteq> []
           then \<lparr>title_result = PStr (hd titles), title_sleeps = sleeps, title_requests = Suc n\<rparr>
           else \<lparr>title_result = PStr msg_title_unavailable, title_sleeps = sleeps,
                 title_requests = Suc n\<rparr>)
      | TitleRaised e \<Rightarrow>
          (if attempt < max_retries - 1
           then title_loop api rest (sleeps @ [retry_delay]) (Suc n)
           else \<lparr>title_result = PStr (msg_title_failed @ e), title_sleeps = sleeps,
                 title_requests = Suc n\<rparr>))"

definition get_video_title_async :: "(string \<Rightarrow> nat \<Rightarrow> title_attempt) \<Rightarrow> string \<Rightarrow> title_run" where
  "get_video_title_async api video_id = title_loop (api video_id) [0..<max_retries] [] 0"

text \<open>
  The services used by \<open>get_video_summary_async\<close>: the transcript service, asked
  for one language at a time, returns the caption entries' texts or raises
  \<open>NoTranscriptFound\<close>, \<open>TranscriptsDisabled\<close> or something else;
  \<open>load_api_keys\<close> returns or raises \<open>ValueError\<close> (\<open>Some\<close> message); the
  completion service is an oracle from the call number and the prompt text to a
  completion or an exception.
\<close>

datatype transcript_result =
  Transcript "string list" | NoTranscriptFound | TranscriptsDisabled | TranscriptError string

datatype completion_result = Completed string | CompletionError string

record services =
  title_api :: "string \<Rightarrow> nat \<Rightarrow> title_attempt"
  get_transcript :: "string \<Rightarrow> string \<Rightarrow> transcript_result"
  load_api_keys :: "string option"
  chat_completion :: "nat \<Rightarrow> string \<Rightarrow> completion_result"

text \<open>
  The result pair of \<open>get_video_summary_async\<close> together with what the call did:
  the languages requested from the transcript service in order, the number of
  completion calls and the delays slept.
\<close>

record summary_run =
  original_text :: string
  summary :: string
  transcript_calls :: "string list"
  completion_calls :: nat
  summary_sleeps :: "nat list"

fun join_with :: "string \<Rightarrow> string list \<Rightarrow> string" where
  "join_with sep [] = []"
| "join_with sep [x] = x"
| "join_with sep (x # y # ys) = x @ sep @ join_with sep (y # ys)"

definition summarize_transcript :: "services \<Rightarrow> string list \<Rightarrow> string list \<Rightarrow> summary_run" where
  "summarize_transcript svc calls transcript =
     (let full_text = join_with '' '' transcript
      in case load_api_keys svc of
           Some e \<Rightarrow>
             \<lparr>original_text = [], summary = msg_error_occurred @ e, transcript_calls = calls,
              completion_calls = 0, summary_sleeps = []\<rparr>
         | None \<Rightarrow>
             (case chat_completion svc 0 full_text of
                Completed content \<Rightarrow>
                  \<lparr>original_text = full_text, summary = content, transcript_calls = calls,
                   completion_calls = 1, summary_sleeps = []\<rparr>
              | CompletionError e \<Rightarrow>
                  \<lparr>original_text = [], summary = msg_error_occurred @ e, transcript_calls = calls,
                   completion_calls = 1, summary_sleeps = []\<rparr>))"

definition unavailable :: "string \<Rightarrow> string list \<Rightarrow> summary_run" where
  "unavailable msg calls =
     \<lparr>original_text = [], summary = msg, transcript_calls = calls, completion_calls = 0,
      summary_sleeps = []\<rparr>"

definition get_video_summary_async :: "services \<Rightarrow> string \<Rightarrow> summary_run" where
  "get_video_summary_async svc video_id =
     (case get_transcript svc video_id ''ko'' of
        Transcript transcript \<Rightarrow> summarize_transcript svc [''ko''] transcript
      | NoTranscriptFound \<Rightarrow>
          (case get_transcript svc video_id ''en'' of
             Transcript transcript \<Rightarrow> summarize_transcript svc [''ko'', ''en''] transcript
           | NoTranscriptFound \<Rightarrow> unavailable msg_no_transcript [''ko'', ''en'']
           | TranscriptsDisabled \<Rightarrow> unavailable msg_transcripts_disabled [''ko'', ''en'']
           | TranscriptError e \<Rightarrow> unavailable (msg_error_occurred @ e) [''ko'', ''en''])
      | TranscriptsDisabled \<Rightarrow> unavailable msg_transcripts_disabled [''ko'']
      | TranscriptError e \<Rightarrow> unavailable (msg_error_occurred @ e) [''ko''])"

text \<open>
  \<open>process_excel_thread\<close>. The input table is the list of the cells of its
  \<open>URL\<close> column. \<open>processing i\<close> is the value of the flag \<open>self.processing\<close>
  read before row \<open>i\<close>; \<open>svc i\<close> is how the services behave while row \<open>i\<close> is
  processed. The run ends either by handing the collected rows to
  \<open>save_excel_with_formatting\<close> (\<open>Saved\<close>) or by the early \<open>return\<close> of the
  stop check (\<open>Stopped\<close>, carrying the local list \<open>results\<close> that is dropped).
\<close>

record summary_record =
  rec_title :: pyval
  rec_url :: pyval
  rec_original :: string
  rec_summary :: string

definition invalid_row :: "pyval \<Rightarrow> summary_record" where
  "invalid_row url =
     \<lparr>rec_title = PStr msg_invalid_url_title, rec_url = url, rec_original = [],
      rec_summary = msg_invalid_url\<rparr>"

definition process_row ::
  "(string \<Rightarrow> bool) \<Rightarrow> (string \<Rightarrow> string) \<Rightarrow> services \<Rightarrow> pyval \<Rightarrow> summary_record" where
  "process_row netloc_check pct svc url =
     (case extract_video_id netloc_check pct url of
        None \<Rightarrow> invalid_row url
      | Some video_id \<Rightarrow>
          if video_id \<noteq> []
          then (let title = title_result (get_video_title_async (title_api svc) video_id);
                    run = get_video_summary_async svc video_id
                in \<lparr>rec_title = title, rec_url = url, rec_original = original_text run,
                    rec_summary = summary run\<rparr>)
          else invalid_row url)"

datatype batch_outcome = Saved "summary_record list" | Stopped "summary_record list"

fun process_rows ::
  "(string \<Rightarrow> bool) \<Rightarrow> (string \<Rightarrow> string) \<Rightarrow> (nat \<Rightarrow> bool) \<Rightarrow> (nat \<Rightarrow> services) \<Rightarrow> nat \<Rightarrow>
   pyval list \<Rightarrow> summary_record list \<Rightarrow> batch_outcome" where
  "process_rows netloc_check pct processing svc index [] results = Saved results"
| "process_rows netloc_check pct processing svc index (url # rows) results =
     (if \<not> processing index then Stopped results
      else process_rows netloc_check pct processing svc (Suc index) rows
             (results @ [process_row netloc_check pct (svc index) url]))"

definition process_excel_thread ::
  "(string \<Rightarrow> bool) \<Rightarrow> (string \<Rightarrow> string) \<Rightarrow> (nat \<Rightarrow> bool) \<Rightarrow> (nat \<Rightarrow> services) \<Rightarrow>
   pyval list \<Rightarrow> batch_outcome" where
  "process_excel_thread netloc_check pct processing svc rows =
     process_rows netloc_check pct processing svc 0 rows []"

text \<open>The table written to the output file, if one is written at all.\<close>

fun output_table :: "batch_outcome \<Rightarrow> summary_record list option" where
  "output_table (Saved results) = Some results"
| "output_table (Stopped results) = None"

text \<open>The rows a run has completed, written out or not.\<close>

fun completed_rows :: "batch_outcome \<Rightarrow> summary_record list" where
  "completed_rows (Saved results) = results"
| "completed_rows (Stopped results) = results"

text \<open>
  Scripted services for concrete runs: fixed outcomes for the two transcript
  languages, a list of outcomes for the successive title attempts and one for the
  successive completion calls (a call beyond its list fails).
\<close>

definition scripted_services ::
  "transcript_result \<Rightarrow> transcript_result \<Rightarrow> title_attempt list \<Rightarrow> completion_result list \<Rightarrow> services" where
  "scripted_services ko en titles completions =
     \<lparr>title_api = (\<lambda>video_id n. if n < length titles then titles ! n else TitleRaised ''timeout''),
      get_transcript = (\<lambda>video_id lang. if lang = ''ko'' then ko else en),
      load_api_keys = None,
      chat_completion = (\<lambda>n text. if n < length completions then completions ! n
                                     else CompletionError ''unavailable'')\<rparr>"

text \<open>
  For concrete runs: a flag that is set before the first \<open>k\<close> rows only, and
  services that behave alike on every row.
\<close>

definition processing_until :: "nat \<Rightarrow> nat \<Rightarrow> bool" where
  "processing_until k i = (i < k)"

definition every_row :: "services \<Rightarrow> nat \<Rightarrow> services" where
  "every_row svc i = svc"

section \<open>Search paginator and detail enricher (\<open>Youtube_search.py\<close>, \<open>fetch_youtube_data\<close>)\<close>

text \<open>
  Library calls whose results only fill fields of a record are parameters:
  \<open>isodate.parse_duration\<close>, \<open>int\<close> on a string and
  \<open>datetime.strptime(...).date()\<close>. Each may raise.
\<close>

record parsers =
  isodate_parse_duration :: "string \<Rightarrow> exn + nat"
  py_int :: "string \<Rightarrow> exn + int"
  parse_published :: "string \<Rightarrow> exn + string"

text \<open>
  The first item of a detail response. A field read with \<open>[...]\<close> raises
  \<open>KeyError\<close> when absent, a field read with \<open>.get\<close> has a default.
\<close>

record video_data =
  vd_title :: "string option"
  vd_channelTitle :: "string option"
  vd_channelId :: "string option"
  vd_duration :: "string option"
  vd_statistics :: "(string option \<times> string option) option"
  vd_tags :: "string list option"
  vd_thumbnail :: "string option"
  vd_publishedAt :: "string option"

text \<open>
  The outcome of the detail request of one hit: a \<open>RequestException\<close>, or a JSON
  body whose \<open>items\<close> key is absent (\<open>None\<close>) or holds a list.
\<close>

datatype detail_response = DetailTransportError string | DetailJson "video_data list option"

text \<open>
  A search hit: its \<open>item['id']['videoId']\<close>, if present, and what the detail
  endpoint answers when asked about it during this run.
\<close>

record hit =
  hit_videoId :: "string option"
  hit_detail :: detail_response

record video_record =
  Index :: nat
  Title :: string
  Channel_Title :: string
  Channel_ID :: string
  Duration :: string
  Views :: int
  Comments :: int
  URL :: string
  Thumbnail_URL :: string
  Tags :: string
  Published_Date :: string

definition bind_exn :: "exn + 'a \<Rightarrow> ('a \<Rightarrow> exn + 'b) \<Rightarrow> exn + 'b" where
  "bind_exn m f = (case m of Inl e \<Rightarrow> Inl e | Inr x \<Rightarrow> f x)"

definition require :: "string \<Rightarrow> 'a option \<Rightarrow> exn + 'a" where
  "require key v = (case v of None \<Rightarrow> Inl (Exn key) | Some x \<Rightarrow> Inr x)"

definition get_default :: "'a \<Rightarrow> 'a option \<Rightarrow> 'a" where
  "get_default d v = (case v of None \<Rightarrow> d | Some x \<Rightarrow> x)"

definition count_of :: "parsers \<Rightarrow> string option \<Rightarrow> exn + int" where
  "count_of P v = (case v of None \<Rightarrow> Inr 0 | Some s \<Rightarrow> py_int P s)"

definition build_record :: "parsers \<Rightarrow> nat \<Rightarrow> string \<Rightarrow> video_data \<Rightarrow> exn + video_record" where
  "build_record P idx video_url video_data =
     bind_exn (require ''title'' (vd_title video_data)) (\<lambda>title.
     bind_exn (require ''channelTitle'' (vd_channelTitle video_data)) (\<lambda>channel_title.
     bind_exn (require ''duration'' (vd_duration video_data)) (\<lambda>iso.
     bind_exn (format_duration (isodate_parse_duration P) iso) (\<lambda>duration.
     bind_exn (require ''statistics'' (vd_statistics video_data)) (\<lambda>statistics.
     bind_exn (count_of P (fst statistics)) (\<lambda>views.
     bind_exn (count_of P (snd statistics)) (\<lambda>comments.
     bind_exn (require ''thumbnails'' (vd_thumbnail video_data)) (\<lambda>thumbnail_url.
     bind_exn (require ''publishedAt'' (vd_publishedAt video_data)) (\<lambda>published_at.
     bind_exn (parse_published P published_at) (\<lambda>published_date.
       Inr \<lparr>Index = idx, Title = title, Channel_Title = channel_title,
            Channel_ID = get_default [] (vd_channelId video_data), Duration = duration,
            Views = views, Comments = comments, URL = video_url,
            Thumbnail_URL = thumbnail_url,
            Tags = join_with '', '' (get_default [] (vd_tags video_data)),
            Published_Date = published_date\<rparr>))))))))))"

text \<open>
  One iteration of the loop over the hits of a page, for the hit at 1-based position
  \<open>index\<close> when \<open>fetched\<close> hits were counted on earlier pages: \<open>Inr None\<close> is an
  iteration that appends nothing (the \<open>continue\<close> after a transport failure, or a
  response without items), \<open>Inr (Some r)\<close> appends \<open>r\<close>, \<open>Inl\<close> is an
  exception that nothing in \<open>fetch_youtube_data\<close> catches.
\<close>

definition process_item :: "parsers \<Rightarrow> nat \<Rightarrow> nat \<Rightarrow> hit \<Rightarrow> exn + video_record option" where
  "process_item P fetched index item =
     (case hit_videoId item of
        None \<Rightarrow> Inl (Exn ''videoId'')
      | Some video_id \<Rightarrow>
          (case hit_detail item of
             DetailTransportError e \<Rightarrow> Inr None
           | DetailJson info \<Rightarrow>
               (case info of
                  Some (video_data # others) \<Rightarrow>
                    bind_exn (build_record P (index + fetched)
                                (''https://www.youtube.com/watch?v='' @ video_id) video_data)
                      (\<lambda>r. Inr (Some r))
                | _ \<Rightarrow> Inr None)))"

fun process_items ::
  "parsers \<Rightarrow> nat \<Rightarrow> nat \<Rightarrow> hit list \<Rightarrow> video_record list \<Rightarrow> exn + video_record list" where
  "process_items P fetched index [] video_details = Inr video_details"
| "process_items P fetched index (item # items) video_details =
     (case process_item P fetched index item of
        Inl e \<Rightarrow> Inl e
      | Inr None \<Rightarrow> process_items P fetched (Suc index) items video_details
      | Inr (Some r) \<Rightarrow> process_items P fetched (Suc index) items (video_details @ [r]))"

text \<open>
  The outcome of one search request: a \<open>RequestException\<close>, or a JSON body with
  its \<open>items\<close> (absent: \<open>None\<close>) and its \<open>nextPageToken\<close>. A run is driven by
  the list of the outcomes of its successive search requests; the result is
  \<open>None\<close> when the loop asks for a page beyond that list, that is, when it has not
  stopped within the requests given.
\<close>

record search_results =
  sr_items :: "hit list option"
  nextPageToken :: "string option"

datatype search_response = SearchTransportError string | SearchJson search_results

record fetch_state =
  video_details :: "video_record list"
  total_results_fetched :: nat
  requests :: nat

definition has_cursor :: "string option \<Rightarrow> bool" where
  "has_cursor token = (case token of None \<Rightarrow> False | Some t \<Rightarrow> t \<noteq> [])"

fun fetch_pages :: "parsers \<Rightarrow> search_response list \<Rightarrow> fetch_state \<Rightarrow> (exn + fetch_state) option" where
  "fetch_pages P [] st = None"
| "fetch_pages P (SearchTransportError e # later) st =
     Some (Inr (st\<lparr>requests := Suc (requests st)\<rparr>))"
| "fetch_pages P (SearchJson search_results # later) st =
     (let items = get_default [] (sr_items search_results)
      in case process_items P (total_results_fetched st) 1 items (video_details st) of
           Inl e \<Rightarrow> Some (Inl e)
         | Inr details \<Rightarrow>
             (let st' = \<lparr>video_details = details,
                         total_results_fetched = total_results_fetched st + length items,
                         requests = Suc (requests st)\<rparr>
              in if \<not> has_cursor (nextPageToken search_results) \<or> 200 \<le> total_results_fetched st'
                 then Some (Inr st')
                 else fetch_pages P later st'))"

definition fetch_youtube_data :: "parsers \<Rightarrow> search_response list \<Rightarrow> (exn + fetch_state) option" where
  "fetch_youtube_data P responses =
     fetch_pages P responses \<lparr>video_details = [], total_results_fetched = 0, requests = 0\<rparr>"

text \<open>
  The hits of a response, and the classification of a hit with a video id by its
  detail response: the request failed, the response holds no item, or it holds one.
\<close>

fun page_items :: "search_response \<Rightarrow> hit list" where
  "page_items (SearchTransportError e) = []"
| "page_items (SearchJson search_results) = get_default [] (sr_items search_results)"

fun page_has_cursor :: "search_response \<Rightarrow> bool" where
  "page_has_cursor (SearchTransportError e) = False"
| "page_has_cursor (SearchJson search_results) = has_cursor (nextPageToken search_results)"

definition transport_failed :: "hit \<Rightarrow> bool" where
  "transport_failed item =
     (case hit_videoId item of
        None \<Rightarrow> False
      | Some video_id \<Rightarrow>
          (case hit_detail item of DetailTransportError e \<Rightarrow> True | DetailJson info \<Rightarrow> False))"

definition no_result_item :: "hit \<Rightarrow> bool" where
  "no_result_item item =
     (case hit_videoId item of
        None \<Rightarrow> False
      | Some video_id \<Rightarrow>
          (case hit_detail item of
             DetailTransportError e \<Rightarrow> False
           | DetailJson info \<Rightarrow> (case info of Some (video_data # others) \<Rightarrow> False | _ \<Rightarrow> True)))"

definition yields_record :: "hit \<Rightarrow> bool" where
  "yields_record item =
     (case hit_videoId item of
        None \<Rightarrow> False
      | Some video_id \<Rightarrow>
          (case hit_detail item of
             DetailTransportError e \<Rightarrow> False
           | DetailJson info \<Rightarrow> (case info of Some (video_data # others) \<Rightarrow> True | _ \<Rightarrow> False)))"

text \<open>
  Concrete parsers, hits and pages for example runs. The example date parser keeps
  the calendar date of a 20-character timestamp, as \<open>strptime(...).date()\<close> does
  on a well-formed one, and raises otherwise.
\<close>

definition example_parsers :: parsers where
  "example_parsers =
     \<lparr>isodate_parse_duration = (\<lambda>s. Inr 3723), py_int = (\<lambda>s. Inr 7),
      parse_published = (\<lambda>s. if length s = 20 then Inr (take 10 s)
                                 else Inl (Exn ''time data does not match format''))\<rparr>"

definition example_data :: video_data where
  "example_data =
     \<lparr>vd_title = Some ''A title'', vd_channelTitle = Some ''A channel'', vd_channelId = Some ''UC1'',
      vd_duration = Some ''PT1H2M3S'', vd_statistics = Some (Some ''7'', None),
      vd_tags = Some [''a'', ''b''], vd_thumbnail = Some ''https://i.ytimg.com/vi/x/hq.jpg'',
      vd_publishedAt = Some ''2024-03-23T00:00:00Z''\<rparr>"

definition good_hit :: hit where
  "good_hit = \<lparr>hit_videoId = Some ''abc'', hit_detail = DetailJson (Some [example_data])\<rparr>"

definition failing_hit :: hit where
  "failing_hit = \<lparr>hit_videoId = Some ''abc'', hit_detail = DetailTransportError ''timeout''\<rparr>"

definition empty_hit :: hit where
  "empty_hit = \<lparr>hit_videoId = Some ''abc'', hit_detail = DetailJson (Some [])\<rparr>"

definition example_record :: "nat \<Rightarrow> video_record" where
  "example_record idx =
     \<lparr>Index = idx, Title = ''A title'', Channel_Title = ''A channel'', Channel_ID = ''UC1'',
      Duration = ''01:02:03'', Views = 7, Comments = 0,
      URL = ''https://www.youtube.com/watch?v=abc'',
      Thumbnail_URL = ''https://i.ytimg.com/vi/x/hq.jpg'', Tags = ''a, b'',
      Published_Date = ''2024-03-23''\<rparr>"

definition page_of :: "hit list \<Rightarrow> string option \<Rightarrow> search_response" where
  "page_of items token = SearchJson \<lparr>sr_items = Some items, nextPageToken = token\<rparr>"

definition example_run :: "search_response list" where
  "example_run =
     [page_of (replicate 50 good_hit) (Some ''t1''), page_of (replicate 50 good_hit) (Some ''t2''),
      page_of (replicate 50 good_hit) (Some ''t3''), page_of (replicate 49 good_hit) (Some ''t4''),
      page_of (replicate 50 good_hit) (Some ''t5'')]"

text \<open>The number of records a run returned (0 when it raised or did not return).\<close>

fun record_count :: "(exn + fetch_state) option \<Rightarrow> nat" where
  "record_count (Some (Inr st)) = length (video_details st)"
| "record_count (Some (Inl e)) = 0"
| "record_count None = 0"

section \<open>Properties of the duration formatter\<close>

lemma of_char_digit_char: "d < 10 \<Longrightarrow> (of_char (digit_char d) :: nat) = 48 + d"
  by (simp add: digit_char_def)

lemma digit_char_numerals:
  "digit_char 0 = CHR ''0''" "digit_char 1 = CHR ''1''" "digit_char 2 = CHR ''2''"
  "digit_char 3 = CHR ''3''" "digit_char 4 = CHR ''4''" "digit_char 5 = CHR ''5''"
  "digit_char 6 = CHR ''6''" "digit_char 7 = CHR ''7''" "digit_char 8 = CHR ''8''"
  "digit_char 9 = CHR ''9''" "digit_char (Suc 0) = CHR ''1''"
  by code_simp+

lemma is_digit_digit_char: "d < 10 \<Longrightarrow> is_digit (digit_char d)"
  by (simp add: is_digit_def digit_char_def)

lemma dec_val_append: "dec_val (s @ [c]) = dec_val s * 10 + (of_char c - 48)"
  by (simp add: dec_val_def)

lemma dec_val_str_nat: "dec_val (str_nat n) = n"
proof (induction n rule: str_nat.induct)
  case (1 n)
  show ?case
  proof (cases "n < 10")
    case True
    then show ?thesis
      by (subst str_nat.simps) (simp add: dec_val_def of_char_digit_char)
  next
    case False
    with 1 have "dec_val (str_nat (n div 10)) = n div 10" by simp
    with False show ?thesis
      by (subst str_nat.simps) (simp add: dec_val_append of_char_digit_char)
  qed
qed

lemma digits_str_nat: "list_all is_digit (str_nat n)"
proof (induction n rule: str_nat.induct)
  case (1 n)
  show ?case
  proof (cases "n < 10")
    case True
    then show ?thesis
      by (subst str_nat.simps) (simp add: is_digit_digit_char)
  next
    case False
    with 1 have "list_all is_digit (str_nat (n div 10))" by simp
    with False show ?thesis
      by (subst str_nat.simps) (simp add: is_digit_digit_char)
  qed
qed

lemma length_str_nat_pos: "Suc 0 \<le> length (str_nat n)"
  by (subst str_nat.simps) simp

lemma length_str_nat_small: "n < 100 \<Longrightarrow> length (str_nat n) \<le> 2"
  by (subst str_nat.simps, simp, subst str_nat.simps, simp)

lemma length_str_nat_big:
  assumes "100 \<le> n"
  shows "3 \<le> length (str_nat n)"
proof -
  from assms have a: "\<not> n < 10" and b: "\<not> n div 10 < 10" by auto
  have "str_nat n = str_nat (n div 10 div 10) @ [digit_char (n div 10 mod 10)] @ [digit_char (n mod 10)]"
    using a b by (subst str_nat.simps, simp, subst str_nat.simps, simp)
  then show ?thesis
    using length_str_nat_pos [of "n div 10 div 10"] by simp
qed

lemma dec_val_zeros: "dec_val (replicate k CHR ''0'' @ s) = dec_val s"
  by (induction k) (simp_all add: dec_val_def)

lemma dec_val_fmt02: "dec_val (fmt02 n) = n"
  by (simp add: fmt02_def Let_def dec_val_zeros dec_val_str_nat)

lemma digits_fmt02: "list_all is_digit (fmt02 n)"
proof -
  have "list_all is_digit (replicate k CHR ''0'')" for k
    by (induction k) (simp_all add: is_digit_def)
  then show ?thesis
    by (simp add: fmt02_def Let_def digits_str_nat)
qed

lemma length_fmt02_ge: "2 \<le> length (fmt02 n)"
  by (simp add: fmt02_def Let_def)

lemma length_fmt02_small: "n < 100 \<Longrightarrow> length (fmt02 n) = 2"
  using length_str_nat_small [of n] by (simp add: fmt02_def Let_def)

text \<open>
  C9. The duration formatter maps every whole-second, non-negative duration to
  \<open>HH:MM:SS\<close>: three decimal fields separated by colons, each padded with zeros to
  at least two characters. Minutes and seconds are exactly two characters wide, the
  hours field is the full decimal numeral of \<open>t div 3600\<close> (no wrap-around), so the
  three fields read back as the original number of seconds. A duration of 0 seconds
  gives \<open>00:00:00\<close> and one of 3723 seconds gives \<open>01:02:03\<close>. The only way
  \<open>format_duration\<close> can fail is the ISO 8601 parser of the \<open>isodate\<close> library
  raising on its argument, which is outside the formatter proper.
\<close>

theorem format_duration_total:
  assumes "parse_duration duration = Inr t"
  shows "format_duration parse_duration duration =
           Inr (fmt02 (t div 3600) @ '':'' @ fmt02 (t mod 3600 div 60) @ '':'' @ fmt02 (t mod 60))
       \<and> list_all is_digit (fmt02 (t div 3600))
       \<and> list_all is_digit (fmt02 (t mod 3600 div 60))
       \<and> list_all is_digit (fmt02 (t mod 60))
       \<and> 2 \<le> length (fmt02 (t div 3600))
       \<and> length (fmt02 (t mod 3600 div 60)) = 2
       \<and> length (fmt02 (t mod 60)) = 2
       \<and> dec_val (fmt02 (t div 3600)) * 3600 + dec_val (fmt02 (t mod 3600 div 60)) * 60
             + dec_val (fmt02 (t mod 60)) = t
       \<and> (t = 0 \<longrightarrow> format_duration parse_duration duration = Inr ''00:00:00'')
       \<and> (t = 3723 \<longrightarrow> format_duration parse_duration duration = Inr ''01:02:03'')"
proof -
  have fd: "format_duration parse_duration duration =
           Inr (fmt02 (t div 3600) @ '':'' @ fmt02 (t mod 3600 div 60) @ '':'' @ fmt02 (t mod 60))"
    using assms by (simp add: format_duration_def divmod_def mod_mod_cancel)
  have m: "t mod 3600 div 60 < 100" and s: "t mod 60 < 100"
    by (simp_all add: less_mult_imp_div_less) 
  have recompose: "t div 3600 * 3600 + t mod 3600 div 60 * 60 + t mod 60 = t"
  proof -
    have a: "t mod 3600 div 60 * 60 + t mod 3600 mod 60 = t mod 3600"
      by (rule div_mult_mod_eq)
    have b: "t mod 3600 mod 60 = t mod 60"
      by (simp add: mod_mod_cancel)
    have c: "t div 3600 * 3600 + t mod 3600 = t"
      by (rule div_mult_mod_eq)
    have "t div 3600 * 3600 + t mod 3600 div 60 * 60 + t mod 60
          = t div 3600 * 3600 + (t mod 3600 div 60 * 60 + t mod 3600 mod 60)"
      by (simp only: b add.assoc)
    also have "\<dots> = t div 3600 * 3600 + t mod 3600"
      by (simp only: a)
    also have "\<dots> = t"
      by (rule c)
    finally show ?thesis .
  qed
  have z: "fmt02 0 = ''00''"
    by (simp add: fmt02_def str_nat.simps digit_char_numerals)
  have e1: "fmt02 1 = ''01''" and e2: "fmt02 2 = ''02''" and e3: "fmt02 3 = ''03''"
    by (simp_all add: fmt02_def str_nat.simps digit_char_numerals)
  have ex0: "t = 0 \<longrightarrow> format_duration parse_duration duration = Inr ''00:00:00''"
    using fd z by simp
  have ex1: "t = 3723 \<longrightarrow> format_duration parse_duration duration = Inr ''01:02:03''"
    using fd e1 e2 e3 by simp
  show ?thesis
    using fd recompose ex0 ex1
    by (simp add: digits_fmt02 length_fmt02_ge length_fmt02_small [OF m]
        length_fmt02_small [OF s] dec_val_fmt02)
qed

theorem format_duration_total_witness:
  "format_duration (\<lambda>_. Inr 360000) ''PT100H'' = Inr ''100:00:00''"
proof -
  have h: "(\<lambda>_. Inr 360000 :: exn + nat) ''PT100H'' = Inr 360000" by simp
  have "fmt02 100 = ''100''" "fmt02 0 = ''00''"
    by (simp_all add: fmt02_def str_nat.simps digit_char_numerals)
  then show ?thesis
    using format_duration_total [OF h] by simp
qed

section \<open>Properties of the identifier extractor\<close>



























section \<open>Properties of the transcript resolver, the retries and the batch\<close>

lemma summarize_transcript_calls [simp]:
  "transcript_calls (summarize_transcript svc calls t) = calls"
  by (simp add: summarize_transcript_def Let_def split: option.splits completion_result.splits)

lemma summarize_transcript_sleeps [simp]:
  "summary_sleeps (summarize_transcript svc calls t) = []"
  by (simp add: summarize_transcript_def Let_def split: option.splits completion_result.splits)

lemma summarize_transcript_completions:
  "completion_calls (summarize_transcript svc calls t) \<le> 1"
  by (simp add: summarize_transcript_def Let_def split: option.splits completion_result.splits)





text \<open>
  C2 (as amended). The title lookup makes at most three attempts and sleeps
  \<open>retry_delay = 1\<close> after each raising attempt but the last: two failures followed
  by a success return the title after exactly two delays, and three failures return
  the failure text built from the last exception instead of raising. The summarizer
  does not retry: it calls the completion service at most once and never sleeps, and
  when that call raises it returns the error text and an empty original text.
\<close>

theorem retry_policy:
  "(tapi video_id 0 = TitleRaised e0 \<and> tapi video_id 1 = TitleRaised e1
        \<and> tapi video_id 2 = TitleResponse 200 (title # others) \<longrightarrow>
       get_video_title_async tapi video_id =
         \<lparr>title_result = PStr title, title_sleeps = [retry_delay, retry_delay], title_requests = 3\<rparr>)
   \<and> (tapi video_id 0 = TitleRaised e0 \<and> tapi video_id 1 = TitleRaised e1
        \<and> tapi video_id 2 = TitleRaised e2 \<longrightarrow>
       get_video_title_async tapi video_id =
         \<lparr>title_result = PStr (msg_title_failed @ e2), title_sleeps = [retry_delay, retry_delay],
          title_requests = 3\<rparr>)
   \<and> title_requests (get_video_title_async tapi video_id) \<le> max_retries
   \<and> length (title_sleeps (get_video_title_async tapi video_id))
       = title_requests (get_video_title_async tapi video_id) - 1
   \<and> list_all (\<lambda>d. d = retry_delay) (title_sleeps (get_video_title_async tapi video_id))
   \<and> (\<exists>text. title_result (get_video_title_async tapi video_id) = PStr text)
   \<and> completion_calls (get_video_summary_async svc video_id) \<le> 1
   \<and> summary_sleeps (get_video_summary_async svc video_id) = []
   \<and> (load_api_keys svc = None \<and> chat_completion svc 0 (join_with '' '' t) = CompletionError e \<longrightarrow>
       summary (summarize_transcript svc calls t) = msg_error_occurred @ e
     \<and> original_text (summarize_transcript svc calls t) = []
     \<and> completion_calls (summarize_transcript svc calls t) = 1)"
proof -
  have u: "[0..<max_retries] = [0, 1, 2]"
    by (simp add: max_retries_def upt_rec)
  have a: "tapi video_id 0 = TitleRaised e0 \<and> tapi video_id 1 = TitleRaised e1
        \<and> tapi video_id 2 = TitleResponse 200 (title # others) \<longrightarrow>
       get_video_title_async tapi video_id =
         \<lparr>title_result = PStr title, title_sleeps = [retry_delay, retry_delay], title_requests = 3\<rparr>"
    unfolding get_video_title_async_def u by (simp add: max_retries_def)
  have b: "tapi video_id 0 = TitleRaised e0 \<and> tapi video_id 1 = TitleRaised e1
        \<and> tapi video_id 2 = TitleRaised e2 \<longrightarrow>
       get_video_title_async tapi video_id =
         \<lparr>title_result = PStr (msg_title_failed @ e2), title_sleeps = [retry_delay, retry_delay],
          title_requests = 3\<rparr>"
    unfolding get_video_title_async_def u by (simp add: max_retries_def)
  let ?r = "get_video_title_async tapi video_id"
  have c: "title_requests ?r \<le> max_retries
       \<and> length (title_sleeps ?r) = title_requests ?r - 1
       \<and> list_all (\<lambda>d. d = retry_delay) (title_sleeps ?r)
       \<and> (\<exists>text. title_result ?r = PStr text)"
    unfolding get_video_title_async_def u
    by (simp add: max_retries_def split: title_attempt.splits)
  have d: "completion_calls (get_video_summary_async svc video_id) \<le> 1
       \<and> summary_sleeps (get_video_summary_async svc video_id) = []"
    using summarize_transcript_completions
    by (simp add: get_video_summary_async_def unavailable_def split: transcript_result.splits)
  have e: "load_api_keys svc = None \<and> chat_completion svc 0 (join_with '' '' t) = CompletionError e \<longrightarrow>
       summary (summarize_transcript svc calls t) = msg_error_occurred @ e
     \<and> original_text (summarize_transcript svc calls t) = []
     \<and> completion_calls (summarize_transcript svc calls t) = 1"
    by (simp add: summarize_transcript_def Let_def)
  from a b c d e show ?thesis
    by (intro conjI) blast+
qed


theorem retry_policy_witness:
  "get_video_title_async
     (title_api (scripted_services NoTranscriptFound NoTranscriptFound
        [TitleRaised ''reset'', TitleRaised ''timeout'', TitleResponse 200 [''A title'']] []))
     ''vid''
   = \<lparr>title_result = PStr ''A title'', title_sleeps = [1, 1], title_requests = 3\<rparr>
   \<and> get_video_title_async
     (title_api (scripted_services NoTranscriptFound NoTranscriptFound
        [TitleRaised ''reset'', TitleRaised ''timeout'', TitleRaised ''refused''] []))
     ''vid''
   = \<lparr>title_result = PStr (msg_title_failed @ ''refused''), title_sleeps = [1, 1], title_requests = 3\<rparr>
   \<and> summary (summarize_transcript
        (scripted_services (Transcript [''hello'']) NoTranscriptFound [] [CompletionError ''overloaded''])
        [''ko''] [''hello''])
     = msg_error_occurred @ ''overloaded''"
  using
    retry_policy [of "title_api (scripted_services NoTranscriptFound NoTranscriptFound
        [TitleRaised ''reset'', TitleRaised ''timeout'', TitleResponse 200 [''A title'']] [])"
      "''vid''" "''reset''" "''timeout''" "''A title''" "[]" "''refused''"
      "scripted_services (Transcript [''hello'']) NoTranscriptFound [] [CompletionError ''overloaded'']"
      "[''hello'']" "''overloaded''" "[''ko'']"]
    retry_policy [of "title_api (scripted_services NoTranscriptFound NoTranscriptFound
        [TitleRaised ''reset'', TitleRaised ''timeout'', TitleRaised ''refused''] [])"
      "''vid''" "''reset''" "''timeout''" "''A title''" "[]" "''refused''"
      "scripted_services (Transcript [''hello'']) NoTranscriptFound [] [CompletionError ''overloaded'']"
      "[''hello'']" "''overloaded''" "[''ko'']"]
  by (simp add: scripted_services_def retry_delay_def)

text \<open>
  C2 as stated fails: with a completion service that raises on its first two calls
  and would succeed on the third, the summarizer returns the error text of the first
  failure after one call and no delay.
\<close>

theorem summarizer_retry_counterexample:
  "chat_completion (scripted_services (Transcript [''hello'']) NoTranscriptFound []
       [CompletionError ''e1'', CompletionError ''e2'', Completed ''S'']) 0 ''hello'' = CompletionError ''e1''
   \<and> chat_completion (scripted_services (Transcript [''hello'']) NoTranscriptFound []
       [CompletionError ''e1'', CompletionError ''e2'', Completed ''S'']) 1 ''hello'' = CompletionError ''e2''
   \<and> chat_completion (scripted_services (Transcript [''hello'']) NoTranscriptFound []
       [CompletionError ''e1'', CompletionError ''e2'', Completed ''S'']) 2 ''hello'' = Completed ''S''
   \<and> summary (get_video_summary_async (scripted_services (Transcript [''hello'']) NoTranscriptFound []
       [CompletionError ''e1'', CompletionError ''e2'', Completed ''S'']) ''vid'') \<noteq> ''S''
   \<and> summary (get_video_summary_async (scripted_services (Transcript [''hello'']) NoTranscriptFound []
       [CompletionError ''e1'', CompletionError ''e2'', Completed ''S'']) ''vid'') = msg_error_occurred @ ''e1''
   \<and> length (summary_sleeps (get_video_summary_async (scripted_services (Transcript [''hello''])
       NoTranscriptFound [] [CompletionError ''e1'', CompletionError ''e2'', Completed ''S'']) ''vid'')) \<noteq> 2
   \<and> completion_calls (get_video_summary_async (scripted_services (Transcript [''hello''])
       NoTranscriptFound [] [CompletionError ''e1'', CompletionError ''e2'', Completed ''S'']) ''vid'') = 1"
  by (simp add: scripted_services_def get_video_summary_async_def summarize_transcript_def
      msg_error_occurred_def)

lemma process_rows_all:
  assumes "\<forall>i < length rows. processing (j + i)"
  shows "process_rows netloc_check pct processing svc j rows acc =
           Saved (acc @ map (\<lambda>(i, url). process_row netloc_check pct (svc i) url)
                          (enumerate j rows))"
  using assms
proof (induction rows arbitrary: j acc)
  case Nil
  then show ?case by simp
next
  case (Cons url rows)
  from Cons.prems have p0: "processing j" by auto
  from Cons.prems have "\<forall>i < length rows. processing (Suc j + i)" by auto
  from Cons.IH [OF this] p0 show ?case
    by simp
qed

lemma process_rows_stop:
  assumes "\<forall>i < length pre. processing (j + i)" and "\<not> processing (j + length pre)"
  shows "process_rows netloc_check pct processing svc j (pre @ url # post) acc =
           Stopped (acc @ map (\<lambda>(i, url). process_row netloc_check pct (svc i) url)
                          (enumerate j pre))"
  using assms
proof (induction pre arbitrary: j acc)
  case Nil
  then show ?case by simp
next
  case (Cons u pre)
  from Cons.prems have p0: "processing j" by auto
  from Cons.prems have a: "\<forall>i < length pre. processing (Suc j + i)" by auto
  from Cons.prems have b: "\<not> processing (Suc j + length pre)" by simp
  from Cons.IH [OF a b] p0 show ?case
    by simp
qed


lemma diagnostic_messages_nonempty:
  "msg_invalid_url \<noteq> []" "msg_invalid_url_title \<noteq> []" "msg_no_transcript \<noteq> []"
  "msg_transcripts_disabled \<noteq> []" "msg_error_occurred \<noteq> []" "msg_title_failed \<noteq> []"
  "msg_title_unavailable \<noteq> []"
  by (simp_all add: msg_invalid_url_def msg_invalid_url_title_def msg_no_transcript_def
      msg_transcripts_disabled_def msg_error_occurred_def msg_title_failed_def
      msg_title_unavailable_def)

lemma process_row_valid:
  assumes "extract_video_id netloc_check pct url = Some vid" and "vid \<noteq> []"
  shows "process_row netloc_check pct s url =
           \<lparr>rec_title = title_result (get_video_title_async (title_api s) vid), rec_url = url,
            rec_original = original_text (get_video_summary_async s vid),
            rec_summary = summary (get_video_summary_async s vid)\<rparr>"
  using assms by (simp add: process_row_def Let_def)

lemma summary_failures:
  "get_transcript s vid ''ko'' = NoTranscriptFound \<Longrightarrow> get_transcript s vid ''en'' = NoTranscriptFound \<Longrightarrow>
     summary (get_video_summary_async s vid) = msg_no_transcript
     \<and> original_text (get_video_summary_async s vid) = []"
  "get_transcript s vid ''ko'' = TranscriptsDisabled \<Longrightarrow>
     summary (get_video_summary_async s vid) = msg_transcripts_disabled
     \<and> original_text (get_video_summary_async s vid) = []"
  "get_transcript s vid ''ko'' = NoTranscriptFound \<Longrightarrow> get_transcript s vid ''en'' = TranscriptsDisabled \<Longrightarrow>
     summary (get_video_summary_async s vid) = msg_transcripts_disabled
     \<and> original_text (get_video_summary_async s vid) = []"
  "get_transcript s vid ''ko'' = TranscriptError e \<Longrightarrow>
     summary (get_video_summary_async s vid) = msg_error_occurred @ e
     \<and> original_text (get_video_summary_async s vid) = []"
  "get_transcript s vid ''ko'' = NoTranscriptFound \<Longrightarrow> get_transcript s vid ''en'' = TranscriptError e \<Longrightarrow>
     summary (get_video_summary_async s vid) = msg_error_occurred @ e
     \<and> original_text (get_video_summary_async s vid) = []"
  by (simp_all add: get_video_summary_async_def unavailable_def)

lemma summary_after_transcript:
  assumes "get_transcript s vid ''ko'' = Transcript t
           \<or> (get_transcript s vid ''ko'' = NoTranscriptFound \<and> get_transcript s vid ''en'' = Transcript t)"
  shows "load_api_keys s = Some e \<Longrightarrow>
           summary (get_video_summary_async s vid) = msg_error_occurred @ e
           \<and> original_text (get_video_summary_async s vid) = []"
    and "load_api_keys s = None \<Longrightarrow> chat_completion s 0 (join_with '' '' t) = CompletionError e \<Longrightarrow>
           summary (get_video_summary_async s vid) = msg_error_occurred @ e
           \<and> original_text (get_video_summary_async s vid) = []"
    and "load_api_keys s = None \<Longrightarrow> chat_completion s 0 (join_with '' '' t) = Completed content \<Longrightarrow>
           summary (get_video_summary_async s vid) = content
           \<and> original_text (get_video_summary_async s vid) = join_with '' '' t"
  using assms
  by (auto simp: get_video_summary_async_def summarize_transcript_def Let_def)

lemma title_outcomes:
  "tapi vid 0 = TitleResponse 200 (title # others) \<Longrightarrow>
     title_result (get_video_title_async tapi vid) = PStr title"
  "tapi vid 0 = TitleResponse status titles \<Longrightarrow> status \<noteq> 200 \<or> titles = [] \<Longrightarrow>
     title_result (get_video_title_async tapi vid) = PStr msg_title_unavailable"
  "tapi vid 0 = TitleRaised e0 \<Longrightarrow> tapi vid 1 = TitleRaised e1 \<Longrightarrow> tapi vid 2 = TitleRaised e2 \<Longrightarrow>
     title_result (get_video_title_async tapi vid) = PStr (msg_title_failed @ e2)"
proof -
  have u: "[0..<max_retries] = [0, 1, 2]"
    by (simp add: max_retries_def upt_rec)
  show "tapi vid 0 = TitleResponse 200 (title # others) \<Longrightarrow>
     title_result (get_video_title_async tapi vid) = PStr title"
    unfolding get_video_title_async_def u by simp
  show "tapi vid 0 = TitleResponse status titles \<Longrightarrow> status \<noteq> 200 \<or> titles = [] \<Longrightarrow>
     title_result (get_video_title_async tapi vid) = PStr msg_title_unavailable"
    unfolding get_video_title_async_def u by auto
  show "tapi vid 0 = TitleRaised e0 \<Longrightarrow> tapi vid 1 = TitleRaised e1 \<Longrightarrow> tapi vid 2 = TitleRaised e2 \<Longrightarrow>
     title_result (get_video_title_async tapi vid) = PStr (msg_title_failed @ e2)"
    unfolding get_video_title_async_def u by (simp add: max_retries_def)
qed

text \<open>
  C5. When the flag is still set before every row, the run hands to the save step a
  table with exactly one record per input row, in input order, each carrying its
  row's URL cell. A row whose cell yields no identifier, or an empty one, gets the
  invalid-URL record with its diagnostic title and text. A row with an identifier
  gets the result of the title lookup and of the summarizer; every failure there is
  text in the record: the no-captions message, the captions-disabled message, or the
  error prefix followed by the exception text (transcript service, missing API key,
  completion service) in the summary with an empty original text, and the title
  placeholder or the title failure text in the title. None of these messages is
  empty.
\<close>

theorem batch_row_parity:
  assumes "\<forall>i < length rows. processing i"
  shows "process_excel_thread netloc_check pct processing svc rows =
           Saved (map (\<lambda>(i, url). process_row netloc_check pct (svc i) url)
                      (enumerate 0 rows))
       \<and> (\<exists>table. output_table (process_excel_thread netloc_check pct processing svc rows) = Some table
              \<and> length table = length rows
              \<and> map rec_url table = rows)
       \<and> (extract_video_id netloc_check pct url = None \<longrightarrow>
             process_row netloc_check pct s url = invalid_row url)
       \<and> rec_summary (invalid_row url) = msg_invalid_url
       \<and> rec_url (process_row netloc_check pct s url) = url
       \<and> (extract_video_id netloc_check pct url = Some [] \<longrightarrow>
             process_row netloc_check pct s url = invalid_row url)
       \<and> rec_title (invalid_row url) = PStr msg_invalid_url_title
       \<and> (extract_video_id netloc_check pct url = Some vid \<and> vid \<noteq> [] \<longrightarrow>
             process_row netloc_check pct s url =
               \<lparr>rec_title = title_result (get_video_title_async (title_api s) vid), rec_url = url,
                rec_original = original_text (get_video_summary_async s vid),
                rec_summary = summary (get_video_summary_async s vid)\<rparr>
           \<and> (get_transcript s vid ''ko'' = NoTranscriptFound
                \<and> get_transcript s vid ''en'' = NoTranscriptFound \<longrightarrow>
                 rec_summary (process_row netloc_check pct s url) = msg_no_transcript \<and> rec_original (process_row netloc_check pct s url) = [])
           \<and> (get_transcript s vid ''ko'' = TranscriptsDisabled
                \<or> (get_transcript s vid ''ko'' = NoTranscriptFound
                    \<and> get_transcript s vid ''en'' = TranscriptsDisabled) \<longrightarrow>
                 rec_summary (process_row netloc_check pct s url) = msg_transcripts_disabled \<and> rec_original (process_row netloc_check pct s url) = [])
           \<and> (get_transcript s vid ''ko'' = TranscriptError err
                \<or> (get_transcript s vid ''ko'' = NoTranscriptFound
                    \<and> get_transcript s vid ''en'' = TranscriptError err) \<longrightarrow>
                 rec_summary (process_row netloc_check pct s url) = msg_error_occurred @ err \<and> rec_original (process_row netloc_check pct s url) = [])
           \<and> ((get_transcript s vid ''ko'' = Transcript t
                 \<or> (get_transcript s vid ''ko'' = NoTranscriptFound
                     \<and> get_transcript s vid ''en'' = Transcript t))
                \<and> load_api_keys s = Some err \<longrightarrow>
                 rec_summary (process_row netloc_check pct s url) = msg_error_occurred @ err \<and> rec_original (process_row netloc_check pct s url) = [])
           \<and> ((get_transcript s vid ''ko'' = Transcript t
                 \<or> (get_transcript s vid ''ko'' = NoTranscriptFound
                     \<and> get_transcript s vid ''en'' = Transcript t))
                \<and> load_api_keys s = None
                \<and> chat_completion s 0 (join_with '' '' t) = CompletionError err \<longrightarrow>
                 rec_summary (process_row netloc_check pct s url) = msg_error_occurred @ err \<and> rec_original (process_row netloc_check pct s url) = [])
           \<and> ((get_transcript s vid ''ko'' = Transcript t
                 \<or> (get_transcript s vid ''ko'' = NoTranscriptFound
                     \<and> get_transcript s vid ''en'' = Transcript t))
                \<and> load_api_keys s = None
                \<and> chat_completion s 0 (join_with '' '' t) = Completed content \<longrightarrow>
                 rec_summary (process_row netloc_check pct s url) = content \<and> rec_original (process_row netloc_check pct s url) = join_with '' '' t)
           \<and> (title_api s vid 0 = TitleResponse 200 (title # others) \<longrightarrow>
                 rec_title (process_row netloc_check pct s url) = PStr title)
           \<and> (title_api s vid 0 = TitleResponse status titles \<and> (status \<noteq> 200 \<or> titles = []) \<longrightarrow>
                 rec_title (process_row netloc_check pct s url) = PStr msg_title_unavailable)
           \<and> (title_api s vid 0 = TitleRaised e0 \<and> title_api s vid 1 = TitleRaised e1
                \<and> title_api s vid 2 = TitleRaised e2 \<longrightarrow>
                 rec_title (process_row netloc_check pct s url) = PStr (msg_title_failed @ e2)))
       \<and> msg_invalid_url \<noteq> [] \<and> msg_invalid_url_title \<noteq> [] \<and> msg_no_transcript \<noteq> []
       \<and> msg_transcripts_disabled \<noteq> [] \<and> msg_error_occurred \<noteq> [] \<and> msg_title_failed \<noteq> []
       \<and> msg_title_unavailable \<noteq> []"
proof -
  let ?f = "\<lambda>(i, url). process_row netloc_check pct (svc i) url"
  have u: "rec_url (process_row netloc_check pct s' u) = u" for s' u
    by (simp add: process_row_def invalid_row_def Let_def split: option.splits)
  have a: "process_excel_thread netloc_check pct processing svc rows =
           Saved (map ?f (enumerate 0 rows))"
    using process_rows_all [of rows processing 0 netloc_check pct svc "[]"] assms
    by (simp add: process_excel_thread_def)
  have m: "map rec_url (map ?f (enumerate j rs)) = rs" for j rs
  proof (induction rs arbitrary: j)
    case Nil
    then show ?case by simp
  next
    case (Cons r rs)
    from Cons [of "Suc j"] show ?case
      by (simp add: u)
  qed
  have b: "\<exists>table. output_table (process_excel_thread netloc_check pct processing svc rows) = Some table
              \<and> length table = length rows \<and> map rec_url table = rows"
    using a m [of 0 rows] by simp
  have c: "extract_video_id netloc_check pct url = None \<longrightarrow>
             process_row netloc_check pct s url = invalid_row url"
    by (simp add: process_row_def)
  have d: "rec_summary (invalid_row url) = msg_invalid_url"
    by (simp add: invalid_row_def)
  have c': "extract_video_id netloc_check pct url = Some [] \<longrightarrow>
             process_row netloc_check pct s url = invalid_row url"
    by (simp add: process_row_def)
  have d': "rec_title (invalid_row url) = PStr msg_invalid_url_title"
    by (simp add: invalid_row_def)
  have v: "process_row netloc_check pct s url =
               \<lparr>rec_title = title_result (get_video_title_async (title_api s) vid), rec_url = url,
                rec_original = original_text (get_video_summary_async s vid),
                rec_summary = summary (get_video_summary_async s vid)\<rparr>
           \<and> (get_transcript s vid ''ko'' = NoTranscriptFound
                \<and> get_transcript s vid ''en'' = NoTranscriptFound \<longrightarrow>
                 rec_summary (process_row netloc_check pct s url) = msg_no_transcript \<and> rec_original (process_row netloc_check pct s url) = [])
           \<and> (get_transcript s vid ''ko'' = TranscriptsDisabled
                \<or> (get_transcript s vid ''ko'' = NoTranscriptFound
                    \<and> get_transcript s vid ''en'' = TranscriptsDisabled) \<longrightarrow>
                 rec_summary (process_row netloc_check pct s url) = msg_transcripts_disabled \<and> rec_original (process_row netloc_check pct s url) = [])
           \<and> (get_transcript s vid ''ko'' = TranscriptError err
                \<or> (get_transcript s vid ''ko'' = NoTranscriptFound
                    \<and> get_transcript s vid ''en'' = TranscriptError err) \<longrightarrow>
                 rec_summary (process_row netloc_check pct s url) = msg_error_occurred @ err \<and> rec_original (process_row netloc_check pct s url) = [])
           \<and> ((get_transcript s vid ''ko'' = Transcript t
                 \<or> (get_transcript s vid ''ko'' = NoTranscriptFound
                     \<and> get_transcript s vid ''en'' = Transcript t))
                \<and> load_api_keys s = Some err \<longrightarrow>
                 rec_summary (process_row netloc_check pct s url) = msg_error_occurred @ err \<and> rec_original (process_row netloc_check pct s url) = [])
           \<and> ((get_transcript s vid ''ko'' = Transcript t
                 \<or> (get_transcript s vid ''ko'' = NoTranscriptFound
                     \<and> get_transcript s vid ''en'' = Transcript t))
                \<and> load_api_keys s = None
                \<and> chat_completion s 0 (join_with '' '' t) = CompletionError err \<longrightarrow>
                 rec_summary (process_row netloc_check pct s url) = msg_error_occurred @ err \<and> rec_original (process_row netloc_check pct s url) = [])
           \<and> ((get_transcript s vid ''ko'' = Transcript t
                 \<or> (get_transcript s vid ''ko'' = NoTranscriptFound
                     \<and> get_transcript s vid ''en'' = Transcript t))
                \<and> load_api_keys s = None
                \<and> chat_completion s 0 (join_with '' '' t) = Completed content \<longrightarrow>
                 rec_summary (process_row netloc_check pct s url) = content \<and> rec_original (process_row netloc_check pct s url) = join_with '' '' t)
           \<and> (title_api s vid 0 = TitleResponse 200 (title # others) \<longrightarrow>
                 rec_title (process_row netloc_check pct s url) = PStr title)
           \<and> (title_api s vid 0 = TitleResponse status titles \<and> (status \<noteq> 200 \<or> titles = []) \<longrightarrow>
                 rec_title (process_row netloc_check pct s url) = PStr msg_title_unavailable)
           \<and> (title_api s vid 0 = TitleRaised e0 \<and> title_api s vid 1 = TitleRaised e1
                \<and> title_api s vid 2 = TitleRaised e2 \<longrightarrow>
                 rec_title (process_row netloc_check pct s url) = PStr (msg_title_failed @ e2))"
    if x: "extract_video_id netloc_check pct url = Some vid" "vid \<noteq> []"
  proof -
    note r = process_row_valid [OF x, of s]
    have s1: "get_transcript s vid ''ko'' = NoTranscriptFound
                \<and> get_transcript s vid ''en'' = NoTranscriptFound \<longrightarrow>
                 rec_summary (process_row netloc_check pct s url) = msg_no_transcript \<and> rec_original (process_row netloc_check pct s url) = []"
      unfolding r using summary_failures(1) [of s vid] by simp
    have s2: "get_transcript s vid ''ko'' = TranscriptsDisabled
                \<or> (get_transcript s vid ''ko'' = NoTranscriptFound
                    \<and> get_transcript s vid ''en'' = TranscriptsDisabled) \<longrightarrow>
                 rec_summary (process_row netloc_check pct s url) = msg_transcripts_disabled \<and> rec_original (process_row netloc_check pct s url) = []"
      unfolding r using summary_failures(2,3) [of s vid] by auto
    have s3: "get_transcript s vid ''ko'' = TranscriptError err
                \<or> (get_transcript s vid ''ko'' = NoTranscriptFound
                    \<and> get_transcript s vid ''en'' = TranscriptError err) \<longrightarrow>
                 rec_summary (process_row netloc_check pct s url) = msg_error_occurred @ err \<and> rec_original (process_row netloc_check pct s url) = []"
      unfolding r using summary_failures(4,5) [of s vid err] by auto
    have s4: "(get_transcript s vid ''ko'' = Transcript t
                 \<or> (get_transcript s vid ''ko'' = NoTranscriptFound
                     \<and> get_transcript s vid ''en'' = Transcript t))
                \<and> load_api_keys s = Some err \<longrightarrow>
                 rec_summary (process_row netloc_check pct s url) = msg_error_occurred @ err \<and> rec_original (process_row netloc_check pct s url) = []"
      unfolding r using summary_after_transcript(1) [of s vid t err] by simp
    have s5: "(get_transcript s vid ''ko'' = Transcript t
                 \<or> (get_transcript s vid ''ko'' = NoTranscriptFound
                     \<and> get_transcript s vid ''en'' = Transcript t))
                \<and> load_api_keys s = None
                \<and> chat_completion s 0 (join_with '' '' t) = CompletionError err \<longrightarrow>
                 rec_summary (process_row netloc_check pct s url) = msg_error_occurred @ err \<and> rec_original (process_row netloc_check pct s url) = []"
      unfolding r using summary_after_transcript(2) [of s vid t err] by simp
    have s6: "(get_transcript s vid ''ko'' = Transcript t
                 \<or> (get_transcript s vid ''ko'' = NoTranscriptFound
                     \<and> get_transcript s vid ''en'' = Transcript t))
                \<and> load_api_keys s = None
                \<and> chat_completion s 0 (join_with '' '' t) = Completed content \<longrightarrow>
                 rec_summary (process_row netloc_check pct s url) = content \<and> rec_original (process_row netloc_check pct s url) = join_with '' '' t"
      unfolding r using summary_after_transcript(3) [of s vid t content] by simp
    have t1: "title_api s vid 0 = TitleResponse 200 (title # others) \<longrightarrow>
                 rec_title (process_row netloc_check pct s url) = PStr title"
      unfolding r using title_outcomes(1) [of "title_api s" vid title others] by simp
    have t2: "title_api s vid 0 = TitleResponse status titles \<and> (status \<noteq> 200 \<or> titles = []) \<longrightarrow>
                 rec_title (process_row netloc_check pct s url) = PStr msg_title_unavailable"
      unfolding r using title_outcomes(2) [of "title_api s" vid status titles] by simp
    have t3: "title_api s vid 0 = TitleRaised e0 \<and> title_api s vid 1 = TitleRaised e1
                \<and> title_api s vid 2 = TitleRaised e2 \<longrightarrow>
                 rec_title (process_row netloc_check pct s url) = PStr (msg_title_failed @ e2)"
      unfolding r using title_outcomes(3) [of "title_api s" vid e0 e1 e2] by simp
    from r s1 s2 s3 s4 s5 s6 t1 t2 t3 show ?thesis
      by (intro conjI)
  qed
  have v': "extract_video_id netloc_check pct url = Some vid \<and> vid \<noteq> [] \<longrightarrow>
             process_row netloc_check pct s url =
               \<lparr>rec_title = title_result (get_video_title_async (title_api s) vid), rec_url = url,
                rec_original = original_text (get_video_summary_async s vid),
                rec_summary = summary (get_video_summary_async s vid)\<rparr>
           \<and> (get_transcript s vid ''ko'' = NoTranscriptFound
                \<and> get_transcript s vid ''en'' = NoTranscriptFound \<longrightarrow>
                 rec_summary (process_row netloc_check pct s url) = msg_no_transcript \<and> rec_original (process_row netloc_check pct s url) = [])
           \<and> (get_transcript s vid ''ko'' = TranscriptsDisabled
                \<or> (get_transcript s vid ''ko'' = NoTranscriptFound
                    \<and> get_transcript s vid ''en'' = TranscriptsDisabled) \<longrightarrow>
                 rec_summary (process_row netloc_check pct s url) = msg_transcripts_disabled \<and> rec_original (process_row netloc_check pct s url) = [])
           \<and> (get_transcript s vid ''ko'' = TranscriptError err
                \<or> (get_transcript s vid ''ko'' = NoTranscriptFound
                    \<and> get_transcript s vid ''en'' = TranscriptError err) \<longrightarrow>
                 rec_summary (process_row netloc_check pct s url) = msg_error_occurred @ err \<and> rec_original (process_row netloc_check pct s url) = [])
           \<and> ((get_transcript s vid ''ko'' = Transcript t
                 \<or> (get_transcript s vid ''ko'' = NoTranscriptFound
                     \<and> get_transcript s vid ''en'' = Transcript t))
                \<and> load_api_keys s = Some err \<longrightarrow>
                 rec_summary (process_row netloc_check pct s url) = msg_error_occurred @ err \<and> rec_original (process_row netloc_check pct s url) = [])
           \<and> ((get_transcript s vid ''ko'' = Transcript t
                 \<or> (get_transcript s vid ''ko'' = NoTranscriptFound
                     \<and> get_transcript s vid ''en'' = Transcript t))
                \<and> load_api_keys s = None
                \<and> chat_completion s 0 (join_with '' '' t) = CompletionError err \<longrightarrow>
                 rec_summary (process_row netloc_check pct s url) = msg_error_occurred @ err \<and> rec_original (process_row netloc_check pct s url) = [])
           \<and> ((get_transcript s vid ''ko'' = Transcript t
                 \<or> (get_transcript s vid ''ko'' = NoTranscriptFound
                     \<and> get_transcript s vid ''en'' = Transcript t))
                \<and> load_api_keys s = None
                \<and> chat_completion s 0 (join_with '' '' t) = Completed content \<longrightarrow>
                 rec_summary (process_row netloc_check pct s url) = content \<and> rec_original (process_row netloc_check pct s url) = join_with '' '' t)
           \<and> (title_api s vid 0 = TitleResponse 200 (title # others) \<longrightarrow>
                 rec_title (process_row netloc_check pct s url) = PStr title)
           \<and> (title_api s vid 0 = TitleResponse status titles \<and> (status \<noteq> 200 \<or> titles = []) \<longrightarrow>
                 rec_title (process_row netloc_check pct s url) = PStr msg_title_unavailable)
           \<and> (title_api s vid 0 = TitleRaised e0 \<and> title_api s vid 1 = TitleRaised e1
                \<and> title_api s vid 2 = TitleRaised e2 \<longrightarrow>
                 rec_title (process_row netloc_check pct s url) = PStr (msg_title_failed @ e2))"
  proof (intro impI)
    assume "extract_video_id netloc_check pct url = Some vid \<and> vid \<noteq> []"
    then have "extract_video_id netloc_check pct url = Some vid" and "vid \<noteq> []"
      by simp_all
    then show "process_row netloc_check pct s url =
               \<lparr>rec_title = title_result (get_video_title_async (title_api s) vid), rec_url = url,
                rec_original = original_text (get_video_summary_async s vid),
                rec_summary = summary (get_video_summary_async s vid)\<rparr>
           \<and> (get_transcript s vid ''ko'' = NoTranscriptFound
                \<and> get_transcript s vid ''en'' = NoTranscriptFound \<longrightarrow>
                 rec_summary (process_row netloc_check pct s url) = msg_no_transcript \<and> rec_original (process_row netloc_check pct s url) = [])
           \<and> (get_transcript s vid ''ko'' = TranscriptsDisabled
                \<or> (get_transcript s vid ''ko'' = NoTranscriptFound
                    \<and> get_transcript s vid ''en'' = TranscriptsDisabled) \<longrightarrow>
                 rec_summary (process_row netloc_check pct s url) = msg_transcripts_disabled \<and> rec_original (process_row netloc_check pct s url) = [])
           \<and> (get_transcript s vid ''ko'' = TranscriptError err
                \<or> (get_transcript s vid ''ko'' = NoTranscriptFound
                    \<and> get_transcript s vid ''en'' = TranscriptError err) \<longrightarrow>
                 rec_summary (process_row netloc_check pct s url) = msg_error_occurred @ err \<and> rec_original (process_row netloc_check pct s url) = [])
           \<and> ((get_transcript s vid ''ko'' = Transcript t
                 \<or> (get_transcript s vid ''ko'' = NoTranscriptFound
                     \<and> get_transcript s vid ''en'' = Transcript t))
                \<and> load_api_keys s = Some err \<longrightarrow>
                 rec_summary (process_row netloc_check pct s url) = msg_error_occurred @ err \<and> rec_original (process_row netloc_check pct s url) = [])
           \<and> ((get_transcript s vid ''ko'' = Transcript t
                 \<or> (get_transcript s vid ''ko'' = NoTranscriptFound
                     \<and> get_transcript s vid ''en'' = Transcript t))
                \<and> load_api_keys s = None
                \<and> chat_completion s 0 (join_with '' '' t) = CompletionError err \<longrightarrow>
                 rec_summary (process_row netloc_check pct s url) = msg_error_occurred @ err \<and> rec_original (process_row netloc_check pct s url) = [])
           \<and> ((get_transcript s vid ''ko'' = Transcript t
                 \<or> (get_transcript s vid ''ko'' = NoTranscriptFound
                     \<and> get_transcript s vid ''en'' = Transcript t))
                \<and> load_api_keys s = None
                \<and> chat_completion s 0 (join_with '' '' t) = Completed content \<longrightarrow>
                 rec_summary (process_row netloc_check pct s url) = content \<and> rec_original (process_row netloc_check pct s url) = join_with '' '' t)
           \<and> (title_api s vid 0 = TitleResponse 200 (title # others) \<longrightarrow>
                 rec_title (process_row netloc_check pct s url) = PStr title)
           \<and> (title_api s vid 0 = TitleResponse status titles \<and> (status \<noteq> 200 \<or> titles = []) \<longrightarrow>
                 rec_title (process_row netloc_check pct s url) = PStr msg_title_unavailable)
           \<and> (title_api s vid 0 = TitleRaised e0 \<and> title_api s vid 1 = TitleRaised e1
                \<and> title_api s vid 2 = TitleRaised e2 \<longrightarrow>
                 rec_title (process_row netloc_check pct s url) = PStr (msg_title_failed @ e2))"
      by (rule v)
  qed
  from a b c d u [of s url] c' d' v' diagnostic_messages_nonempty show ?thesis
    by (intro conjI)
qed

theorem batch_row_parity_witness:
  "process_excel_thread (\<lambda>_. True) id (\<lambda>_. True)
        (\<lambda>_. scripted_services (Transcript [''hi'', ''there'']) NoTranscriptFound
               [TitleResponse 200 [''T'']] [Completed ''S''])
        [PStr ''https://youtu.be/abc'', PNaN]
      = Saved [\<lparr>rec_title = PStr ''T'', rec_url = PStr ''https://youtu.be/abc'',
                rec_original = ''hi there'', rec_summary = ''S''\<rparr>,
               invalid_row PNaN]
   \<and> process_excel_thread (\<lambda>_. True) id (\<lambda>_. True)
        (\<lambda>_. scripted_services NoTranscriptFound NoTranscriptFound
               [TitleRaised ''reset'', TitleRaised ''timeout'', TitleRaised ''refused''] [])
        [PStr ''https://youtu.be/abc'', PNaN]
      = Saved [\<lparr>rec_title = PStr (msg_title_failed @ ''refused''),
                rec_url = PStr ''https://youtu.be/abc'',
                rec_original = [], rec_summary = msg_no_transcript\<rparr>,
               invalid_row PNaN]"
proof -
  have h: "\<forall>i < length [PStr ''https://youtu.be/abc'', PNaN]. (\<lambda>_. True) i"
    by simp
  have x: "extract_video_id (\<lambda>_. True) id (PStr ''https://youtu.be/abc'') = Some ''abc''"
    by (simp add: extract_video_id_def extract_video_id_body_def)
  have y: "extract_video_id (\<lambda>_. True) id PNaN = None"
    by (simp add: extract_video_id_def extract_video_id_body_def)
  let ?good = "scripted_services (Transcript [''hi'', ''there'']) NoTranscriptFound
               [TitleResponse 200 [''T'']] [Completed ''S'']"
  let ?bad = "scripted_services NoTranscriptFound NoTranscriptFound
               [TitleRaised ''reset'', TitleRaised ''timeout'', TitleRaised ''refused''] []"
  note g = batch_row_parity [OF h, where netloc_check = "\<lambda>_. True" and pct = id
      and svc = "\<lambda>_. ?good" and s = ?good and url = "PStr ''https://youtu.be/abc''"
      and vid = "''abc''" and t = "[''hi'', ''there'']" and content = "''S''"
      and title = "''T''" and others = "[]"]
  note f = batch_row_parity [OF h, where netloc_check = "\<lambda>_. True" and pct = id
      and svc = "\<lambda>_. ?bad" and s = ?bad and url = "PStr ''https://youtu.be/abc''"
      and vid = "''abc''" and ?e0.0 = "''reset''" and ?e1.0 = "''timeout''" and ?e2.0 = "''refused''"]
  have u: "[0..<max_retries] = [0, 1, 2]"
    by (simp add: max_retries_def upt_rec)
  have rg: "process_row (\<lambda>_. True) id ?good (PStr ''https://youtu.be/abc'')
            = \<lparr>rec_title = PStr ''T'', rec_url = PStr ''https://youtu.be/abc'',
               rec_original = ''hi there'', rec_summary = ''S''\<rparr>"
    by (simp add: process_row_def x u get_video_title_async_def get_video_summary_async_def
        summarize_transcript_def scripted_services_def)
  have tb: "title_result (get_video_title_async (title_api ?bad) ''abc'')
            = PStr (msg_title_failed @ ''refused'')"
    by (rule title_outcomes(3)) (simp_all add: scripted_services_def)
  have sb: "summary (get_video_summary_async ?bad ''abc'') = msg_no_transcript
            \<and> original_text (get_video_summary_async ?bad ''abc'') = []"
    by (rule summary_failures(1)) (simp_all add: scripted_services_def)
  have rf: "process_row (\<lambda>_. True) id ?bad (PStr ''https://youtu.be/abc'')
            = \<lparr>rec_title = PStr (msg_title_failed @ ''refused''),
               rec_url = PStr ''https://youtu.be/abc'',
               rec_original = [], rec_summary = msg_no_transcript\<rparr>"
    using process_row_valid [OF x, of ?bad] tb sb by simp
  have ri: "process_row (\<lambda>_. True) id svc' PNaN = invalid_row PNaN" for svc'
    by (simp add: process_row_def y)
  from g have g1: "process_excel_thread (\<lambda>_. True) id (\<lambda>_. True) (\<lambda>_. ?good)
                     [PStr ''https://youtu.be/abc'', PNaN]
        = Saved (map (\<lambda>(i, url). process_row (\<lambda>_. True) id ?good url)
                   (enumerate 0 [PStr ''https://youtu.be/abc'', PNaN]))"
    by (rule conjunct1)
  from f have f1: "process_excel_thread (\<lambda>_. True) id (\<lambda>_. True) (\<lambda>_. ?bad)
                     [PStr ''https://youtu.be/abc'', PNaN]
        = Saved (map (\<lambda>(i, url). process_row (\<lambda>_. True) id ?bad url)
                   (enumerate 0 [PStr ''https://youtu.be/abc'', PNaN]))"
    by (rule conjunct1)
  show ?thesis
    unfolding g1 f1 by (simp add: rg rf ri)
qed

text \<open>
  C1 as stated fails: a run stopped after its first row writes no output table at
  all; the completed row is only in the local list that the early return drops.
\<close>

theorem cancellation_counterexample:
  "output_table (process_excel_thread accept_netloc id (processing_until 1)
        (every_row (scripted_services (Transcript [''hi'']) NoTranscriptFound
               [TitleResponse 200 [''T'']] [Completed ''S'']))
        [PStr ''https://youtu.be/abc'', PStr ''https://youtu.be/def'']) = None
   \<and> completed_rows (process_excel_thread accept_netloc id (processing_until 1)
        (every_row (scripted_services (Transcript [''hi'']) NoTranscriptFound
               [TitleResponse 200 [''T'']] [Completed ''S'']))
        [PStr ''https://youtu.be/abc'', PStr ''https://youtu.be/def''])
      = [\<lparr>rec_title = PStr ''T'', rec_url = PStr ''https://youtu.be/abc'',
          rec_original = ''hi'', rec_summary = ''S''\<rparr>]"
proof -
  have u: "[0..<max_retries] = [0, 1, 2]"
    by (simp add: max_retries_def upt_rec)
  have x: "extract_video_id accept_netloc id (PStr ''https://youtu.be/abc'') = Some ''abc''"
    by (simp add: extract_video_id_def extract_video_id_body_def)
  show ?thesis
    by (simp add: process_excel_thread_def process_row_def x u get_video_title_async_def
        get_video_summary_async_def summarize_transcript_def scripted_services_def
        processing_until_def every_row_def)
qed

text \<open>
  C1 (as amended). When the flag is set before each of the first \<open>k\<close> rows and
  found cleared before row \<open>k + 1\<close>, the run returns at once: exactly the first
  \<open>k\<close> rows have been completed, in order, the remaining rows are never
  processed, and no output table is written.
\<close>

theorem batch_cancellation:
  assumes "k < length rows" and "\<forall>i < k. processing i" and "\<not> processing k"
  shows "process_excel_thread netloc_check pct processing svc rows =
           Stopped (map (\<lambda>(i, url). process_row netloc_check pct (svc i) url)
                        (enumerate 0 (take k rows)))
       \<and> output_table (process_excel_thread netloc_check pct processing svc rows) = None
       \<and> length (completed_rows (process_excel_thread netloc_check pct processing svc rows)) = k
       \<and> map rec_url (completed_rows (process_excel_thread netloc_check pct processing svc rows))
           = take k rows"
proof -
  let ?f = "\<lambda>(i, url). process_row netloc_check pct (svc i) url"
  have split: "rows = take k rows @ rows ! k # drop (Suc k) rows"
    using assms(1) by (rule id_take_nth_drop)
  have len: "length (take k rows) = k"
    using assms(1) by simp
  have "process_rows netloc_check pct processing svc 0 (take k rows @ rows ! k # drop (Suc k) rows) []
        = Stopped ([] @ map ?f (enumerate 0 (take k rows)))"
    by (rule process_rows_stop) (simp_all add: len assms)
  then have a: "process_excel_thread netloc_check pct processing svc rows =
           Stopped (map ?f (enumerate 0 (take k rows)))"
    using split by (simp add: process_excel_thread_def)
  have u: "rec_url (process_row netloc_check pct s' u) = u" for s' u
    by (simp add: process_row_def invalid_row_def Let_def split: option.splits)
  have m: "map rec_url (map ?f (enumerate j rs)) = rs" for j rs
  proof (induction rs arbitrary: j)
    case Nil
    then show ?case by simp
  next
    case (Cons r rs)
    from Cons [of "Suc j"] show ?case
      by (simp add: u)
  qed
  show ?thesis
    using a m [of 0 "take k rows"] len by simp
qed

theorem batch_cancellation_witness:
  "process_excel_thread (\<lambda>_. True) id (\<lambda>i. i < 1)
        (\<lambda>_. scripted_services NoTranscriptFound NoTranscriptFound [] []) [PNaN, PNaN, PNaN]
      = Stopped [invalid_row PNaN]"
proof -
  have h1: "(1::nat) < length [PNaN, PNaN, PNaN]" by simp
  have h2: "\<forall>i < (1::nat). (\<lambda>i. i < 1) i" by simp
  have h3: "\<not> (\<lambda>i. i < 1) (1::nat)" by simp
  have y: "extract_video_id (\<lambda>_. True) id PNaN = None"
    by (simp add: extract_video_id_def extract_video_id_body_def)
  show ?thesis
    using batch_cancellation [OF h1 h2 h3, of "\<lambda>_. True" id
        "\<lambda>_. scripted_services NoTranscriptFound NoTranscriptFound [] []"]
    by (simp add: process_row_def y)
qed

text \<open>
  C10. A cell that is \<open>None\<close>, the empty string, or not a string at all (a number,
  a NaN) is stopped by the guard at the top of the extractor: the body returns
  \<open>None\<close> without raising, and the batch turns the row into the invalid-URL record
  that keeps the cell and carries the diagnostic text.
\<close>

theorem extract_video_id_guard:
  assumes "url = PNone \<or> url = PStr [] \<or> \<not> is_str url"
  shows "extract_video_id_body netloc_check pct url = Inr None
       \<and> extract_video_id netloc_check pct url = None
       \<and> process_row netloc_check pct svc url = invalid_row url
       \<and> rec_url (invalid_row url) = url
       \<and> rec_summary (invalid_row url) = msg_invalid_url
       \<and> rec_title (invalid_row url) = PStr msg_invalid_url_title"
proof -
  have "extract_video_id_body netloc_check pct url = Inr None"
    using assms by (cases url) (auto simp: extract_video_id_body_def)
  then show ?thesis
    by (simp add: extract_video_id_def process_row_def invalid_row_def)
qed

theorem extract_video_id_guard_witness:
  "extract_video_id_body (\<lambda>_. True) id PNaN = Inr None
   \<and> process_row (\<lambda>_. True) id (scripted_services NoTranscriptFound NoTranscriptFound [] []) PNaN
       = invalid_row PNaN"
proof -
  have h: "PNaN = PNone \<or> PNaN = PStr [] \<or> \<not> is_str PNaN" by simp
  show ?thesis
    using extract_video_id_guard [OF h, of "\<lambda>_. True" id
        "scripted_services NoTranscriptFound NoTranscriptFound [] []"]
    by simp
qed

section \<open>Properties of the detail enricher and the search paginator\<close>

lemma build_record_Index: "build_record P idx url vd = Inr r \<Longrightarrow> Index r = idx"
  by (auto simp: build_record_def bind_exn_def split: sum.splits)

lemma process_item_Some:
  assumes "process_item P f i h = Inr (Some r)"
  shows "Index r = i + f" and "yields_record h"
  using assms
  by (auto simp: process_item_def yields_record_def bind_exn_def build_record_Index
      split: option.splits detail_response.splits list.splits sum.splits)

lemma process_item_None:
  assumes "process_item P f i h = Inr None"
  shows "\<not> yields_record h" and "transport_failed h \<or> no_result_item h"
  using assms
  by (auto simp: process_item_def yields_record_def transport_failed_def no_result_item_def
      bind_exn_def split: option.splits detail_response.splits list.splits sum.splits)

lemma process_item_transport_failed:
  "transport_failed h \<Longrightarrow> process_item P f i h = Inr None"
  by (auto simp: process_item_def transport_failed_def
      split: option.splits detail_response.splits)

lemma hit_classes:
  "yields_record h \<Longrightarrow> \<not> transport_failed h \<and> \<not> no_result_item h"
  "transport_failed h \<Longrightarrow> \<not> no_result_item h"
  by (auto simp: yields_record_def transport_failed_def no_result_item_def
      split: option.splits detail_response.splits list.splits)

lemma process_items_Index:
  "process_items P f idx hits acc = Inr rs \<Longrightarrow>
   map Index rs = map Index acc @ map fst (filter (\<lambda>x. yields_record (snd x)) (enumerate (idx + f) hits))"
proof (induction hits arbitrary: idx acc)
  case Nil
  then show ?case by simp
next
  case (Cons h hits)
  show ?case
  proof (cases "process_item P f idx h")
    case (Inl e)
    with Cons.prems show ?thesis by simp
  next
    case (Inr res)
    show ?thesis
    proof (cases res)
      case None
      with Inr Cons.prems have "process_items P f (Suc idx) hits acc = Inr rs" by simp
      from Cons.IH [OF this] process_item_None(1) [of P f idx h] Inr None
      show ?thesis by simp
    next
      case (Some r)
      with Inr Cons.prems have "process_items P f (Suc idx) hits (acc @ [r]) = Inr rs" by simp
      from Cons.IH [OF this] process_item_Some [of P f idx h r] Inr Some
      show ?thesis by simp
    qed
  qed
qed

lemma process_items_count:
  "process_items P f idx hits acc = Inr rs \<Longrightarrow>
   length rs + length (filter transport_failed hits) + length (filter no_result_item hits)
     = length acc + length hits"
proof (induction hits arbitrary: idx acc)
  case Nil
  then show ?case by simp
next
  case (Cons h hits)
  show ?case
  proof (cases "process_item P f idx h")
    case (Inl e)
    with Cons.prems show ?thesis by simp
  next
    case (Inr res)
    show ?thesis
    proof (cases res)
      case None
      with Inr Cons.prems have "process_items P f (Suc idx) hits acc = Inr rs" by simp
      from Cons.IH [OF this] process_item_None(2) [of P f idx h] hit_classes(2) [of h] Inr None
      show ?thesis by auto
    next
      case (Some r)
      with Inr Cons.prems have "process_items P f (Suc idx) hits (acc @ [r]) = Inr rs" by simp
      from Cons.IH [OF this] process_item_Some(2) [of P f idx h r] hit_classes(1) [of h] Inr Some
      show ?thesis by auto
    qed
  qed
qed

lemma process_items_append:
  "process_items P f idx (xs @ ys) acc =
     bind_exn (process_items P f idx xs acc) (\<lambda>rs. process_items P f (idx + length xs) ys rs)"
  by (induction xs arbitrary: idx acc)
     (auto simp: bind_exn_def split: sum.splits option.splits)

lemma process_items_raises:
  "process_items P f idx hits acc = Inl e \<Longrightarrow>
   \<exists>i h. (i, h) \<in> set (enumerate idx hits) \<and> \<not> transport_failed h \<and> process_item P f i h = Inl e"
proof (induction hits arbitrary: idx acc)
  case Nil
  then show ?case by simp
next
  case (Cons h hits)
  show ?case
  proof (cases "process_item P f idx h")
    case (Inl e')
    with Cons.prems have "e' = e" by simp
    moreover have "\<not> transport_failed h"
      using Inl process_item_transport_failed [of h P f idx] by auto
    ultimately show ?thesis using Inl by auto
  next
    case (Inr res)
    with Cons.prems obtain acc' where "process_items P f (Suc idx) hits acc' = Inl e"
      by (cases res) auto
    from Cons.IH [OF this] show ?thesis by auto
  qed
qed

lemma fmt02_small_numerals:
  "fmt02 (Suc 0) = ''01''" "fmt02 2 = ''02''" "fmt02 3 = ''03''"
  by (simp_all add: fmt02_def str_nat.simps digit_char_numerals)

lemma process_item_good:
  "process_item example_parsers f i good_hit = Inr (Some (example_record (i + f)))"
  by (simp add: process_item_def good_hit_def example_data_def example_parsers_def
      build_record_def bind_exn_def require_def get_default_def count_of_def
      format_duration_def divmod_def fmt02_small_numerals example_record_def)

lemma process_item_failing:
  "process_item P f i failing_hit = Inr None"
  by (simp add: process_item_def failing_hit_def)

lemma process_item_empty:
  "process_item P f i empty_hit = Inr None"
  by (simp add: process_item_def empty_hit_def)

lemma example_hit_classes:
  "transport_failed failing_hit" "\<not> transport_failed good_hit" "\<not> transport_failed empty_hit"
  "no_result_item empty_hit" "\<not> no_result_item good_hit" "\<not> no_result_item failing_hit"
  "yields_record good_hit" "\<not> yields_record failing_hit" "\<not> yields_record empty_hit"
  by (simp_all add: transport_failed_def no_result_item_def yields_record_def
      good_hit_def failing_hit_def empty_hit_def)

text \<open>
  C7 as stated fails: a hit whose detail request succeeds with an empty item list
  yields no record although nothing failed at transport.
\<close>

theorem detail_enricher_counterexample:
  "\<not> transport_failed empty_hit
   \<and> process_items example_parsers 0 1 [empty_hit] [] = Inr []
   \<and> fetch_youtube_data example_parsers [page_of [empty_hit] None]
       = Some (Inr \<lparr>video_details = [], total_results_fetched = 1, requests = 1\<rparr>)"
  by (simp add: example_hit_classes process_item_empty fetch_youtube_data_def page_of_def
      get_default_def has_cursor_def)

text \<open>
  C7 (as amended). Of the \<open>N\<close> hits of a page, \<open>M\<close> failing at transport and
  \<open>E\<close> answered without a result item, a run of the loop that raises nothing adds
  exactly \<open>N - M - E\<close> records. A hit failing at transport is skipped alone:
  the hits before and after it are processed as if it were absent, the later ones
  keeping their positions. An exception leaving the loop always comes from a hit that
  did not fail at transport.
\<close>

theorem detail_enricher_counts:
  "(process_items P f idx hits acc = Inr rs \<longrightarrow>
       length rs + length (filter transport_failed hits) + length (filter no_result_item hits)
         = length acc + length hits)
   \<and> (transport_failed h \<longrightarrow>
       process_items P f idx (pre @ h # post) acc =
         bind_exn (process_items P f idx pre acc)
           (\<lambda>rs. process_items P f (Suc (idx + length pre)) post rs))
   \<and> (process_items P f idx hits acc = Inl e \<longrightarrow>
       (\<exists>i h. (i, h) \<in> set (enumerate idx hits) \<and> \<not> transport_failed h
              \<and> process_item P f i h = Inl e))"
proof -
  have a: "transport_failed h \<longrightarrow>
       process_items P f idx (pre @ h # post) acc =
         bind_exn (process_items P f idx pre acc)
           (\<lambda>rs. process_items P f (Suc (idx + length pre)) post rs)"
    by (simp add: process_items_append [of P f idx pre "h # post"] process_item_transport_failed
        bind_exn_def split: sum.splits)
  show ?thesis
    using a process_items_count [of P f idx hits acc rs] process_items_raises [of P f idx hits acc e]
    by blast
qed

theorem detail_enricher_counts_witness:
  "process_items example_parsers 0 1 [good_hit, failing_hit, empty_hit, good_hit] []
     = Inr [example_record 1, example_record 4]
   \<and> length (filter transport_failed [good_hit, failing_hit, empty_hit, good_hit]) = 1
   \<and> length (filter no_result_item [good_hit, failing_hit, empty_hit, good_hit]) = 1
   \<and> process_items example_parsers 0 1 ([good_hit] @ failing_hit # [empty_hit, good_hit]) []
     = bind_exn (process_items example_parsers 0 1 [good_hit] [])
         (\<lambda>rs. process_items example_parsers 0 (Suc (1 + length [good_hit])) [empty_hit, good_hit] rs)"
  using detail_enricher_counts [of example_parsers 0 1 "[good_hit, failing_hit, empty_hit, good_hit]"
      "[]" "[example_record 1, example_record 4]" failing_hit "[good_hit]" "[empty_hit, good_hit]"]
  by (simp add: process_item_good process_item_failing process_item_empty example_hit_classes
      bind_exn_def eval_nat_numeral)

lemma fetch_pages_char:
  assumes "fetch_pages P pages st = Some (Inr st')"
  shows "\<exists>n. 0 < n \<and> n \<le> length pages \<and> requests st' = requests st + n
     \<and> total_results_fetched st'
         = total_results_fetched st + length (concat (map page_items (take n pages)))
     \<and> map Index (video_details st')
         = map Index (video_details st)
           @ map fst (filter (\<lambda>x. yields_record (snd x))
               (enumerate (Suc (total_results_fetched st)) (concat (map page_items (take n pages)))))
     \<and> list_all page_has_cursor (take (n - 1) pages)
     \<and> (n = 1 \<or> total_results_fetched st
                   + length (concat (map page_items (take (n - 1) pages))) < 200)"
  using assms
proof (induction pages arbitrary: st)
  case Nil
  then show ?case by simp
next
  case (Cons p later)
  show ?case
  proof (cases p)
    case (SearchTransportError e)
    with Cons.prems have "st' = st\<lparr>requests := Suc (requests st)\<rparr>" by simp
    with SearchTransportError show ?thesis
      by (intro exI [of _ 1]) simp
  next
    case (SearchJson sr)
    define items where "items = get_default [] (sr_items sr)"
    define f where "f = total_results_fetched st"
    obtain details where d: "process_items P f 1 items (video_details st) = Inr details"
      using Cons.prems SearchJson
      by (cases "process_items P f 1 items (video_details st)")
         (simp_all add: items_def f_def Let_def)
    define st1 where "st1 = \<lparr>video_details = details, total_results_fetched = f + length items,
                              requests = Suc (requests st)\<rparr>"
    have idx: "map Index details = map Index (video_details st)
                 @ map fst (filter (\<lambda>x. yields_record (snd x)) (enumerate (Suc f) items))"
      using process_items_Index [OF d] by simp
    show ?thesis
    proof (cases "\<not> has_cursor (nextPageToken sr) \<or> 200 \<le> f + length items")
      case True
      with Cons.prems SearchJson d have "st' = st1"
        by (simp add: items_def [symmetric] f_def [symmetric] st1_def Let_def)
      then show ?thesis
        using idx SearchJson
        by (intro exI [of _ 1]) (simp add: st1_def items_def f_def)
    next
      case False
      with Cons.prems SearchJson d have "fetch_pages P later st1 = Some (Inr st')"
        by (simp add: items_def [symmetric] f_def [symmetric] st1_def Let_def)
      from Cons.IH [OF this] obtain n where n: "0 < n" "n \<le> length later"
        "requests st' = requests st1 + n"
        "total_results_fetched st'
           = total_results_fetched st1 + length (concat (map page_items (take n later)))"
        "map Index (video_details st')
           = map Index (video_details st1)
             @ map fst (filter (\<lambda>x. yields_record (snd x))
                 (enumerate (Suc (total_results_fetched st1)) (concat (map page_items (take n later)))))"
        "list_all page_has_cursor (take (n - 1) later)"
        "n = 1 \<or> total_results_fetched st1
                   + length (concat (map page_items (take (n - 1) later))) < 200"
        by (elim exE conjE) (rule that)
      have pi: "page_items p = items" and pc: "page_has_cursor p"
        using SearchJson False by (simp_all add: items_def)
      have tk: "take (Suc n - 1) (p # later) = p # take (n - 1) later"
        using n(1) by (cases n) simp_all
      have c1: "requests st' = requests st + Suc n"
        using n(3) by (simp add: st1_def)
      have c2: "total_results_fetched st'
         = total_results_fetched st + length (concat (map page_items (take (Suc n) (p # later))))"
        using n(4) by (simp add: st1_def pi f_def)
      have c3: "map Index (video_details st')
         = map Index (video_details st)
           @ map fst (filter (\<lambda>x. yields_record (snd x))
               (enumerate (Suc (total_results_fetched st))
                  (concat (map page_items (take (Suc n) (p # later))))))"
        using n(5) idx
        by (simp add: st1_def pi f_def enumerate_append_eq)
      have c4: "list_all page_has_cursor (take (Suc n - 1) (p # later))"
        unfolding tk using n(6) pc by simp
      have c5: "total_results_fetched st
                   + length (concat (map page_items (take (Suc n - 1) (p # later)))) < 200"
        unfolding tk using n(7) False by (auto simp: st1_def pi f_def)
      show ?thesis
        using n(1,2) c1 c2 c3 c4 c5
        by (intro exI [of _ "Suc n"]) simp
    qed
  qed
qed

lemma fetch_pages_returns:
  assumes "k < length pages" and "\<not> page_has_cursor (pages ! k)"
  shows "\<exists>out. fetch_pages P pages st = Some out
           \<and> (\<forall>st'. out = Inr st' \<longrightarrow> requests st' \<le> requests st + Suc k)"
  using assms
proof (induction pages arbitrary: k st)
  case Nil
  then show ?case by simp
next
  case (Cons p later)
  show ?case
  proof (cases p)
    case (SearchTransportError e)
    then show ?thesis by simp
  next
    case (SearchJson sr)
    define items where "items = get_default [] (sr_items sr)"
    define f where "f = total_results_fetched st"
    show ?thesis
    proof (cases "process_items P f 1 items (video_details st)")
      case (Inl e)
      with SearchJson show ?thesis
        by (simp add: items_def f_def Let_def)
    next
      case (Inr details)
      define st1 where "st1 = \<lparr>video_details = details, total_results_fetched = f + length items,
                                requests = Suc (requests st)\<rparr>"
      show ?thesis
      proof (cases "\<not> has_cursor (nextPageToken sr) \<or> 200 \<le> f + length items")
        case True
        with SearchJson Inr have "fetch_pages P (p # later) st = Some (Inr st1)"
          by (simp add: items_def [symmetric] f_def [symmetric] st1_def Let_def)
        then show ?thesis
          by (simp add: st1_def)
      next
        case False
        with SearchJson Inr have step: "fetch_pages P (p # later) st = fetch_pages P later st1"
          by (simp add: items_def [symmetric] f_def [symmetric] st1_def Let_def)
        from False SearchJson have "page_has_cursor p" by simp
        with Cons.prems(2) obtain k' where k: "k = Suc k'"
          by (cases k) auto
        with Cons.prems have "k' < length later" and "\<not> page_has_cursor (later ! k')"
          by simp_all
        from Cons.IH [OF this, of st1] obtain out where
          o: "fetch_pages P later st1 = Some out"
          "\<forall>st'. out = Inr st' \<longrightarrow> requests st' \<le> requests st1 + Suc k'"
          by (elim exE conjE) (rule that)
        have "requests st1 + Suc k' = requests st + Suc k"
          by (simp add: st1_def k)
        with o step show ?thesis
          by simp
      qed
    qed
  qed
qed

lemma enumerate_filter_sorted:
  "sorted_wrt (<) (map fst (filter q (enumerate k xs)))"
proof -
  have "sorted_wrt (<) (map fst (enumerate k xs))"
    by simp
  then have "sorted_wrt (\<lambda>a b. fst a < fst b) (enumerate k xs)"
    by (simp only: sorted_wrt_map)
  then have "sorted_wrt (\<lambda>a b. fst a < fst b) (filter q (enumerate k xs))"
    by (rule sorted_wrt_filter)
  then show ?thesis
    by (simp only: sorted_wrt_map)
qed

lemma enumerate_filter_distinct:
  "distinct (map fst (filter q (enumerate k xs)))"
  by (rule distinct_map_filter) simp

lemma enumerate_filter_range:
  "list_all (\<lambda>i. k \<le> i \<and> i < k + length xs) (map fst (filter q (enumerate k xs)))"
  by (auto simp: list_all_iff in_set_enumerate_eq)

lemma enumerate_filter_all:
  assumes "list_all q' xs"
  shows "map fst (filter (\<lambda>x. q' (snd x)) (enumerate k xs)) = [k..<k + length xs]"
proof -
  have "filter (\<lambda>x. q' (snd x)) (enumerate k xs) = enumerate k xs"
    using assms by (intro filter_True) (auto simp: list_all_iff in_set_enumerate_eq)
  then show ?thesis by simp
qed


lemma fetch_youtube_data_char:
  assumes "fetch_youtube_data P pages = Some (Inr st)"
  shows "0 < requests st" and "requests st \<le> length pages"
    and "total_results_fetched st = length (concat (map page_items (take (requests st) pages)))"
    and "map Index (video_details st)
         = map fst (filter (\<lambda>x. yields_record (snd x))
             (enumerate 1 (concat (map page_items (take (requests st) pages)))))"
    and "list_all page_has_cursor (take (requests st - 1) pages)"
    and "requests st = 1 \<or> length (concat (map page_items (take (requests st - 1) pages))) < 200"
proof -
  from assms have "fetch_pages P pages \<lparr>video_details = [], total_results_fetched = 0, requests = 0\<rparr>
                   = Some (Inr st)"
    by (simp add: fetch_youtube_data_def)
  from fetch_pages_char [OF this] obtain n where n: "0 < n" "n \<le> length pages"
    "requests st = n"
    "total_results_fetched st = length (concat (map page_items (take n pages)))"
    "map Index (video_details st)
       = map fst (filter (\<lambda>x. yields_record (snd x))
           (enumerate (Suc 0) (concat (map page_items (take n pages)))))"
    "list_all page_has_cursor (take (n - 1) pages)"
    "n = 1 \<or> length (concat (map page_items (take (n - 1) pages))) < 200"
    by (elim exE conjE) simp
  from n show "0 < requests st" and "requests st \<le> length pages"
    and "total_results_fetched st = length (concat (map page_items (take (requests st) pages)))"
    and "map Index (video_details st)
         = map fst (filter (\<lambda>x. yields_record (snd x))
             (enumerate 1 (concat (map page_items (take (requests st) pages)))))"
    and "list_all page_has_cursor (take (requests st - 1) pages)"
    and "requests st = 1 \<or> length (concat (map page_items (take (requests st - 1) pages))) < 200"
    by simp_all
qed

lemma fetch_pages_good_page:
  "fetch_pages example_parsers (page_of (replicate n good_hit) tok # later) st =
     (if \<not> has_cursor tok \<or> 200 \<le> total_results_fetched st + n
      then (case process_items example_parsers (total_results_fetched st) 1 (replicate n good_hit)
                   (video_details st) of
              Inl e \<Rightarrow> Some (Inl e)
            | Inr details \<Rightarrow>
                Some (Inr \<lparr>video_details = details,
                           total_results_fetched = total_results_fetched st + n,
                           requests = Suc (requests st)\<rparr>))
      else (case process_items example_parsers (total_results_fetched st) 1 (replicate n good_hit)
                   (video_details st) of
              Inl e \<Rightarrow> Some (Inl e)
            | Inr details \<Rightarrow>
                fetch_pages example_parsers later
                   \<lparr>video_details = details,
                    total_results_fetched = total_results_fetched st + n,
                    requests = Suc (requests st)\<rparr>))"
  by (simp add: page_of_def get_default_def Let_def split: sum.splits)

lemma process_items_replicate_good:
  "\<exists>rs. process_items example_parsers f idx (replicate n good_hit) acc = Inr rs
        \<and> length rs = length acc + n"
proof (induction n arbitrary: idx acc)
  case 0
  then show ?case by simp
next
  case (Suc n)
  from Suc [of "Suc idx" "acc @ [example_record (idx + f)]"] show ?case
    by (simp add: process_item_good)
qed

text \<open>
  C3 as stated fails: the cap is tested only after a whole page has been added.
  Four pages of 50, 50, 50 and 49 hits leave the count at 199, so a fifth page of 50
  hits is fetched and the run ends with 249 records.
\<close>

theorem paginator_cap_counterexample:
  "record_count (fetch_youtube_data example_parsers example_run) = 249"
proof -
  let ?s0 = "\<lparr>video_details = [], total_results_fetched = 0, requests = 0\<rparr>"
  obtain d1 where d1: "process_items example_parsers 0 (Suc 0) (replicate 50 good_hit) [] = Inr d1"
    "length d1 = 50"
    using process_items_replicate_good [of 0 "Suc 0" 50 "[]"] by auto
  obtain d2 where d2: "process_items example_parsers 50 (Suc 0) (replicate 50 good_hit) d1 = Inr d2"
    "length d2 = 100"
    using process_items_replicate_good [of 50 "Suc 0" 50 d1] d1(2) by auto
  obtain d3 where d3: "process_items example_parsers 100 (Suc 0) (replicate 50 good_hit) d2 = Inr d3"
    "length d3 = 150"
    using process_items_replicate_good [of 100 "Suc 0" 50 d2] d2(2) by auto
  obtain d4 where d4: "process_items example_parsers 150 (Suc 0) (replicate 49 good_hit) d3 = Inr d4"
    "length d4 = 199"
    using process_items_replicate_good [of 150 "Suc 0" 49 d3] d3(2) by auto
  obtain d5 where d5: "process_items example_parsers 199 (Suc 0) (replicate 50 good_hit) d4 = Inr d5"
    "length d5 = 249"
    using process_items_replicate_good [of 199 "Suc 0" 50 d4] d4(2) by auto
  have "fetch_youtube_data example_parsers example_run
        = Some (Inr \<lparr>video_details = d5, total_results_fetched = 249, requests = 5\<rparr>)"
    unfolding fetch_youtube_data_def example_run_def
    by (simp add: fetch_pages_good_page d1(1) d2(1) d3(1) d4(1) d5(1) has_cursor_def)
  then show ?thesis
    using d5(2) by simp
qed


text \<open>
  C3 (as amended). When every page holds at most 50 hits, a run that returns has
  counted at most 249 hits and holds at most that many records: the hits of the pages
  before the last one requested number fewer than 200. Every page before the last one
  requested had a continuation cursor, so nothing is requested after a page without
  one; and when some response of the run lacks a cursor the run does stop, at that
  response or earlier.
\<close>

theorem paginator_bound:
  assumes "list_all (\<lambda>p. length (page_items p) \<le> 50) pages"
  shows "(fetch_youtube_data P pages = Some (Inr st) \<longrightarrow>
            total_results_fetched st \<le> 249
          \<and> length (video_details st) \<le> total_results_fetched st
          \<and> 0 < requests st \<and> requests st \<le> length pages
          \<and> total_results_fetched st = length (concat (map page_items (take (requests st) pages)))
          \<and> list_all page_has_cursor (take (requests st - 1) pages)
          \<and> (requests st = 1
               \<or> length (concat (map page_items (take (requests st - 1) pages))) < 200))
       \<and> (k < length pages \<and> \<not> page_has_cursor (pages ! k) \<longrightarrow>
            (\<exists>out. fetch_youtube_data P pages = Some out
                   \<and> (\<forall>st'. out = Inr st' \<longrightarrow> requests st' \<le> Suc k)))"
proof -
  have a: "total_results_fetched st \<le> 249
          \<and> length (video_details st) \<le> total_results_fetched st
          \<and> 0 < requests st \<and> requests st \<le> length pages
          \<and> total_results_fetched st = length (concat (map page_items (take (requests st) pages)))
          \<and> list_all page_has_cursor (take (requests st - 1) pages)
          \<and> (requests st = 1
               \<or> length (concat (map page_items (take (requests st - 1) pages))) < 200)"
    if run: "fetch_youtube_data P pages = Some (Inr st)"
  proof -
    note c = fetch_youtube_data_char [OF run]
    define n where "n = requests st - 1"
    have n: "requests st = Suc n" and nlt: "n < length pages"
      using c(1,2) by (simp_all add: n_def)
    have tk: "take (requests st) pages = take n pages @ [pages ! n]"
      unfolding n using nlt by (rule take_Suc_conv_app_nth)
    have last: "length (page_items (pages ! n)) \<le> 50"
      using assms nlt by (simp add: list_all_length)
    have before: "length (concat (map page_items (take n pages))) < 200"
    proof (cases "requests st = 1")
      case True
      then show ?thesis by (simp add: n_def)
    next
      case False
      with c(6) show ?thesis by (simp add: n_def)
    qed
    have tot: "total_results_fetched st
               = length (concat (map page_items (take n pages))) + length (page_items (pages ! n))"
      using c(3) by (simp add: tk)
    have bound: "total_results_fetched st \<le> 249"
      using tot before last by simp
    have "length (map Index (video_details st))
          \<le> length (enumerate 1 (concat (map page_items (take (requests st) pages))))"
      unfolding c(4) length_map by (rule length_filter_le)
    then have len: "length (video_details st) \<le> total_results_fetched st"
      using c(3) by simp
    from bound len c show ?thesis
      by simp
  qed
  have b: "\<exists>out. fetch_youtube_data P pages = Some out
                   \<and> (\<forall>st'. out = Inr st' \<longrightarrow> requests st' \<le> Suc k)"
    if "k < length pages" and "\<not> page_has_cursor (pages ! k)"
    using fetch_pages_returns [OF that, of P
        "\<lparr>video_details = [], total_results_fetched = 0, requests = 0\<rparr>"]
    by (simp add: fetch_youtube_data_def)
  from a b show ?thesis
    by blast
qed


lemma example_short_run:
  "fetch_youtube_data example_parsers
     [page_of [good_hit, good_hit] (Some ''t1''), page_of [good_hit] None, page_of [good_hit] None]
   = Some (Inr \<lparr>video_details = [example_record 1, example_record 2, example_record 3],
               total_results_fetched = 3, requests = 2\<rparr>)"
  by (simp add: fetch_youtube_data_def page_of_def get_default_def process_item_good
      has_cursor_def Let_def eval_nat_numeral)

theorem paginator_bound_witness:
  "fetch_youtube_data example_parsers
     [page_of [good_hit, good_hit] (Some ''t1''), page_of [good_hit] None, page_of [good_hit] None]
   = Some (Inr \<lparr>video_details = [example_record 1, example_record 2, example_record 3],
               total_results_fetched = 3, requests = 2\<rparr>)
   \<and> list_all page_has_cursor
        (take 1 [page_of [good_hit, good_hit] (Some ''t1''), page_of [good_hit] None,
                 page_of [good_hit] None])
   \<and> (3::nat) \<le> 249"
proof -
  have h: "list_all (\<lambda>p. length (page_items p) \<le> 50)
             [page_of [good_hit, good_hit] (Some ''t1''), page_of [good_hit] None,
              page_of [good_hit] None]"
    by (simp add: page_of_def get_default_def)
  show ?thesis
    using paginator_bound [OF h, of example_parsers
        "\<lparr>video_details = [example_record 1, example_record 2, example_record 3],
          total_results_fetched = 3, requests = 2\<rparr>" 1]
      example_short_run
    by simp
qed

text \<open>
  C8 as stated fails: when the detail request of the second of three hits fails at
  transport, the records carry the indices 1 and 3.
\<close>

theorem index_gap_counterexample:
  "fetch_youtube_data example_parsers [page_of [good_hit, failing_hit, good_hit] None]
   = Some (Inr \<lparr>video_details = [example_record 1, example_record 3],
               total_results_fetched = 3, requests = 1\<rparr>)
   \<and> map Index [example_record 1, example_record 3] = [1, 3]"
  by (simp add: fetch_youtube_data_def page_of_def get_default_def process_item_good
      process_item_failing has_cursor_def Let_def eval_nat_numeral example_record_def)

text \<open>
  C8 (as amended). The index of a record is the 1-based position of its hit within
  its page plus the number of hits of all earlier pages, that is, the position of the
  hit among all hits of the run; the indices of the records are therefore strictly
  increasing, pairwise different and between 1 and the number of hits. They are
  exactly the positions of the hits that yielded a record, so they run from 1 to the
  number of hits without a gap when every hit yielded one.
\<close>

theorem index_numbering:
  assumes "fetch_youtube_data P pages = Some (Inr st)"
  shows "map Index (video_details st)
           = map fst (filter (\<lambda>x. yields_record (snd x))
               (enumerate 1 (concat (map page_items (take (requests st) pages)))))
       \<and> sorted_wrt (<) (map Index (video_details st))
       \<and> distinct (map Index (video_details st))
       \<and> list_all (\<lambda>i. 1 \<le> i \<and> i \<le> total_results_fetched st) (map Index (video_details st))
       \<and> (list_all yields_record (concat (map page_items (take (requests st) pages))) \<longrightarrow>
            map Index (video_details st) = [1..<Suc (total_results_fetched st)])
       \<and> (process_item P f i h = Inr (Some r) \<longrightarrow> Index r = i + f)"
proof -
  note c = fetch_youtube_data_char [OF assms]
  define hits where "hits = concat (map page_items (take (requests st) pages))"
  have ix: "map Index (video_details st)
            = map fst (filter (\<lambda>x. yields_record (snd x)) (enumerate 1 hits))"
    using c(4) by (simp add: hits_def)
  have tot: "total_results_fetched st = length hits"
    using c(3) by (simp add: hits_def)
  have s: "sorted_wrt (<) (map Index (video_details st))"
    unfolding ix by (rule enumerate_filter_sorted)
  have d: "distinct (map Index (video_details st))"
    unfolding ix by (rule enumerate_filter_distinct)
  have "list_all (\<lambda>i. 1 \<le> i \<and> i < 1 + length hits) (map Index (video_details st))"
    unfolding ix by (rule enumerate_filter_range)
  then have r: "list_all (\<lambda>i. 1 \<le> i \<and> i \<le> total_results_fetched st)
                  (map Index (video_details st))"
    by (auto simp: tot list_all_iff)
  have g: "list_all yields_record hits \<longrightarrow>
             map Index (video_details st) = [1..<Suc (total_results_fetched st)]"
    using enumerate_filter_all [of yields_record hits 1] by (simp add: ix tot)
  have p: "process_item P f i h = Inr (Some r) \<longrightarrow> Index r = i + f"
    using process_item_Some(1) [of P f i h r] by blast
  from ix s d r g p show ?thesis
    unfolding hits_def by (intro conjI)
qed

theorem index_numbering_witness:
  "sorted_wrt (<) (map Index [example_record 1, example_record 2, example_record 3])
   \<and> distinct (map Index [example_record 1, example_record 2, example_record 3])"
proof -
  let ?st = "\<lparr>video_details = [example_record 1, example_record 2, example_record 3],
              total_results_fetched = 3, requests = 2\<rparr>"
  have "sorted_wrt (<) (map Index (video_details ?st)) \<and> distinct (map Index (video_details ?st))"
    using index_numbering [OF example_short_run, of 0 1 good_hit "example_record 1"]
    by (elim conjE) (intro conjI)
  then show ?thesis
    by (simp only: fetch_state.select_convs)
qed

end
